theory Spec2Isabelle
  imports Main "HOL-Library.AList"
begin

section \<open>JavaScript objects and values\<close>

text \<open>
  A JavaScript object with string keys is an association list: the own enumerable
  properties in insertion order, every key once. An assignment \<^verbatim>\<open>o[k] = v\<close> keeps the
  position of a key that is there and appends a new one, which is \<^const>\<open>AList.update\<close>.
  (The engine lists keys that look like array indices first; the properties proved below
  are about lookups and about equality of whole objects, which that does not change.
  The keys here are package names and field names, so the key \<^verbatim>\<open>__proto__\<close>, which an
  assignment treats apart, does not occur.)
\<close>

type_synonym 'v object = "(string \<times> 'v) list"

definition wf_object :: "'v object \<Rightarrow> bool" where
  "wf_object obj = distinct (map fst obj)"

definition keys :: "'v object \<Rightarrow> string list" where
  "keys obj = map fst obj"

definition get :: "'v object \<Rightarrow> string \<Rightarrow> 'v option" where
  "get obj k = map_of obj k"

text \<open>A read \<^verbatim>\<open>o[k]\<close> with a computed key looks at the own properties first and then
  at the prototype. The objects here are plain ones, parsed from JSON or written as
  literals, so their prototype is \<^verbatim>\<open>Object.prototype\<close> and a read under one of the
  names below finds the function that every object inherits. A value read is therefore
  a value of the object or such a function, known by its name.\<close>

definition object_prototype :: "string list" where
  "object_prototype =
    [''constructor'', ''hasOwnProperty'', ''isPrototypeOf'', ''propertyIsEnumerable'',
     ''toLocaleString'', ''toString'', ''valueOf'', ''__defineGetter__'',
     ''__defineSetter__'', ''__lookupGetter__'', ''__lookupSetter__'']"

datatype 'v field = Value 'v | Builtin string

definition read :: "'v object \<Rightarrow> string \<Rightarrow> 'v field option" where
  "read obj k =
    (case get obj k of
       Some v \<Rightarrow> Some (Value v)
     | None \<Rightarrow> if k \<in> set object_prototype then Some (Builtin k) else None)"

text \<open>Object spread \<^verbatim>\<open>{ ...target, ...source }\<close>: the properties of the source are
  assigned onto the target one after the other.\<close>

definition spread :: "'v object \<Rightarrow> 'v object \<Rightarrow> 'v object" where
  "spread target source = foldl (\<lambda>acc (k, v). AList.update k v acc) target source"

text \<open>\<^verbatim>\<open>a || b\<close> for a string (or undefined) left operand: undefined and the empty
  string are falsy.\<close>

fun truthy :: "string option \<Rightarrow> bool" where
  "truthy None = False"
| "truthy (Some s) = (s \<noteq> [])"

text \<open>The same for a value that was read: a function is truthy.\<close>

fun truthy_field :: "string field option \<Rightarrow> bool" where
  "truthy_field None = False"
| "truthy_field (Some (Value s)) = (s \<noteq> [])"
| "truthy_field (Some (Builtin f)) = True"

fun or_else :: "string field option \<Rightarrow> string field \<Rightarrow> string field" where
  "or_else None d = d"
| "or_else (Some (Value s)) d = (if s = [] then d else Value s)"
| "or_else (Some (Builtin f)) d = Builtin f"

text \<open>\<^verbatim>\<open>o || {}\<close> for an object (or undefined) left operand: every object is truthy.\<close>

fun or_empty :: "'v object option \<Rightarrow> 'v object" where
  "or_empty None = []"
| "or_empty (Some obj) = obj"

section \<open>Types of the package module\<close>

text \<open>\<^verbatim>\<open>string | TemplateFileLocation\<close>: an entry of the \<^verbatim>\<open>files\<close> list. The field
  \<^verbatim>\<open>deep\<close> is optional.\<close>

record TemplateFileLocation =
  loc_from :: string
  loc_to :: string
  loc_deep :: "bool option"

datatype file_entry = FileName string | FileLocation TemplateFileLocation

text \<open>\<^verbatim>\<open>Record<string, string | true>\<close>: a declared development dependency is a
  literal version or the sentinel \<^verbatim>\<open>true\<close>.\<close>

datatype declared = Literal string | Sentinel

text \<open>The \<^verbatim>\<open>pilets\<close> block of a host manifest as it is read: every field may be
  missing.\<close>

record pilets_block =
  raw_files :: "file_entry list option"
  raw_externals :: "string list option"
  raw_scripts :: "string object option"
  raw_validators :: "string object option"
  raw_devDependencies :: "declared object option"
  raw_preScaffold :: "string option"
  raw_postScaffold :: "string option"
  raw_preUpgrade :: "string option"
  raw_postUpgrade :: "string option"

text \<open>\<^verbatim>\<open>PiletsInfo\<close>, the normalised block. The record is declared in two steps
  because the reconciler takes it apart as \<^verbatim>\<open>{ externals, ...info }\<close>: the first
  record is \<^verbatim>\<open>info\<close>.\<close>

record info =
  files :: "file_entry list"
  scripts :: "string object"
  validators :: "string object"
  devDependencies :: "declared object"
  preScaffold :: string
  postScaffold :: string
  preUpgrade :: string
  postUpgrade :: string

record PiletsInfo = info +
  externals :: "string list"

text \<open>The host manifest \<^verbatim>\<open>piralInfo\<close> (a parsed package.json): the fields the module
  reads, each possibly missing.\<close>

record manifest =
  pkg_name :: "string option"
  pkg_version :: "string option"
  pkg_app :: "string option"
  pkg_dependencies :: "string object option"
  pkg_devDependencies :: "string object option"
  pkg_pilets :: "pilets_block option"

text \<open>The logging sink of \<^verbatim>\<open>./log\<close>: the calls are recorded in order, a failure with
  its format string and arguments.\<close>

datatype log_entry = LogWarn string | LogFail string "string list"

text \<open>What \<^verbatim>\<open>./info\<close> and \<^verbatim>\<open>./language\<close> provide: the version of the CLI, the
  baseline tooling of a language, and whether a language value is truthy in
  \<^verbatim>\<open>language ? ... : {}\<close> (the enumeration is declared outside this module).\<close>

record 'lang tooling =
  cliVersion :: string
  getDevDependencies :: "'lang \<Rightarrow> string object"
  language_truthy :: "'lang \<Rightarrow> bool"

section \<open>The dependency reconciler\<close>

definition getPiletsInfo :: "manifest \<Rightarrow> PiletsInfo" where
  "getPiletsInfo piralInfo =
    (let b = (case pkg_pilets piralInfo of
                None \<Rightarrow> \<lparr>raw_files = None, raw_externals = None, raw_scripts = None,
                          raw_validators = None, raw_devDependencies = None,
                          raw_preScaffold = None, raw_postScaffold = None,
                          raw_preUpgrade = None, raw_postUpgrade = None\<rparr>
              | Some p \<Rightarrow> p)
     in \<lparr>files = (case raw_files b of None \<Rightarrow> [] | Some x \<Rightarrow> x),
         scripts = (case raw_scripts b of None \<Rightarrow> [] | Some x \<Rightarrow> x),
         validators = (case raw_validators b of None \<Rightarrow> [] | Some x \<Rightarrow> x),
         devDependencies = (case raw_devDependencies b of None \<Rightarrow> [] | Some x \<Rightarrow> x),
         preScaffold = (case raw_preScaffold b of None \<Rightarrow> [] | Some x \<Rightarrow> x),
         postScaffold = (case raw_postScaffold b of None \<Rightarrow> [] | Some x \<Rightarrow> x),
         preUpgrade = (case raw_preUpgrade b of None \<Rightarrow> [] | Some x \<Rightarrow> x),
         postUpgrade = (case raw_postUpgrade b of None \<Rightarrow> [] | Some x \<Rightarrow> x),
         externals = (case raw_externals b of None \<Rightarrow> [] | Some x \<Rightarrow> x)\<rparr>)"

definition unresolved_warning :: "string \<Rightarrow> string" where
  "unresolved_warning name =
    ''The version for '' @ [CHR 0x22] @ name @ [CHR 0x22] @
    '' could not be resolved. Using '' @ [CHR 0x22] @ ''latest'' @ [CHR 0x22] @ ''.''"

text \<open>\<^verbatim>\<open>getDependencyVersion\<close>: the log is passed through, a warning appended when the
  selected version is falsy. An inherited function is neither a string nor
  \<^verbatim>\<open>true\<close>.\<close>

definition getDependencyVersion ::
  "string \<Rightarrow> declared object \<Rightarrow> string object \<Rightarrow> log_entry list
     \<Rightarrow> log_entry list \<times> string field"
where
  "getDependencyVersion name devDeps allDependencies log =
    (let version = read devDeps name;
         selected = (case version of
                       Some (Value (Literal s)) \<Rightarrow> Some (Value s)
                     | Some (Value Sentinel) \<Rightarrow> read allDependencies name
                     | Some (Builtin f) \<Rightarrow> None
                     | None \<Rightarrow> None)
     in (if \<not> truthy_field selected then log @ [LogWarn (unresolved_warning name)] else log,
         or_else selected (Value ''latest'')))"

text \<open>The patch that \<^verbatim>\<open>patchPiletPackage\<close> merges into the pilet's package.json.\<close>

record piral_section =
  comment :: string
  piral_name :: string
  piral_version :: "string option"
  piral_tooling :: string
  piral_externals :: "string list"
  piral_info :: info

record package_patch =
  piral :: piral_section
  patch_devDependencies :: "string field object"
  patch_peerDependencies :: "string object"
  patch_scripts :: "string object"

text \<open>A template literal prints an undefined value as the word.\<close>

fun template :: "string option \<Rightarrow> string" where
  "template None = ''undefined''"
| "template (Some s) = s"

text \<open>\<^verbatim>\<open>version || piralInfo.version\<close>\<close>

definition version_or :: "string \<Rightarrow> string option \<Rightarrow> string option" where
  "version_or version fallback = (if version \<noteq> [] then Some version else fallback)"

definition shared_peers :: "string object" where
  "shared_peers =
    [(''@dbeining/react-atom'', ''*''), (''@libre/atom'', ''*''), (''history'', ''*''),
     (''react'', ''*''), (''react-dom'', ''*''), (''react-router'', ''*''),
     (''react-router-dom'', ''*''), (''tslib'', ''*''), (''path-to-regexp'', ''*'')]"

text \<open>The object literal of \<^verbatim>\<open>peerDependencies\<close>: the externals reduced into an
  object, then the literal properties in their order, then the computed key.\<close>

definition peerDependencies :: "string list \<Rightarrow> string \<Rightarrow> string object" where
  "peerDependencies exts name =
    spread (spread (spread [] (foldl (\<lambda>deps n. AList.update n ''*'' deps) [] exts))
              shared_peers)
      [(name, ''*'')]"

text \<open>The three reductions of \<^verbatim>\<open>devDependencies\<close>. The first visits every property
  of the language baseline with its value; the second is the only one that logs.\<close>

definition typeLayer :: "string object \<Rightarrow> string object \<Rightarrow> string field object" where
  "typeLayer typeDependencies allDependencies =
    foldl (\<lambda>deps (n, v). AList.update n (or_else (read allDependencies n) (Value v)) deps)
      [] typeDependencies"

definition declaredLayer ::
  "declared object \<Rightarrow> string object \<Rightarrow> log_entry list
     \<Rightarrow> log_entry list \<times> string field object"
where
  "declaredLayer devDeps allDependencies log =
    foldl (\<lambda>(lg, deps) n.
             (let (lg', v) = getDependencyVersion n devDeps allDependencies lg
              in (lg', AList.update n v deps)))
      (log, []) (keys devDeps)"

definition externalsLayer :: "string list \<Rightarrow> string object \<Rightarrow> string field object" where
  "externalsLayer exts piralDependencies =
    foldl (\<lambda>deps n.
             AList.update n (or_else (read piralDependencies n) (Value ''latest'')) deps)
      [] exts"

text \<open>\<^verbatim>\<open>allDependencies\<close> and \<^verbatim>\<open>typeDependencies\<close> of \<^verbatim>\<open>patchPiletPackage\<close>.\<close>

definition allDependencies :: "manifest \<Rightarrow> string object" where
  "allDependencies piralInfo =
    spread (spread [] (or_empty (pkg_dependencies piralInfo)))
      (or_empty (pkg_devDependencies piralInfo))"

definition typeDependencies :: "'lang tooling \<Rightarrow> 'lang option \<Rightarrow> string object" where
  "typeDependencies T language =
    (case language of
       None \<Rightarrow> []
     | Some l \<Rightarrow> if language_truthy T l then getDevDependencies T l else [])"

text \<open>The pure part of \<^verbatim>\<open>patchPiletPackage\<close>: the log after the warnings, and the
  patch handed to \<^verbatim>\<open>updateExistingJson\<close>.\<close>

definition piletPatch ::
  "'lang tooling \<Rightarrow> string \<Rightarrow> string \<Rightarrow> manifest \<Rightarrow> 'lang option \<Rightarrow> log_entry list
     \<Rightarrow> log_entry list \<times> package_patch"
where
  "piletPatch T name version piralInfo language log =
    (let piralDependencies = or_empty (pkg_dependencies piralInfo);
         pinfo = getPiletsInfo piralInfo;
         exts = externals pinfo;
         inf = info.truncate pinfo;
         (log', declaredDeps) =
           declaredLayer (devDependencies inf) (allDependencies piralInfo) log
     in (log',
         \<lparr>piral = \<lparr>comment = ''Keep this section to allow running `piral upgrade`.'',
                    piral_name = name, piral_version = pkg_version piralInfo,
                    piral_tooling = cliVersion T, piral_externals = exts,
                    piral_info = inf\<rparr>,
          patch_devDependencies =
            spread
              (spread
                 (spread
                    (spread []
                       (typeLayer (typeDependencies T language) (allDependencies piralInfo)))
                    declaredDeps)
                 (externalsLayer exts piralDependencies))
              [(name, Value (template (version_or version (pkg_version piralInfo)))),
               (''piral-cli'', Value (''^'' @ cliVersion T))],
          patch_peerDependencies = peerDependencies exts name,
          patch_scripts =
            spread
              [(''debug-pilet'', ''pilet debug''), (''build-pilet'', ''pilet build''),
               (''upgrade-pilet'', ''pilet upgrade'')]
              (scripts inf)\<rparr>))"

text \<open>\<^verbatim>\<open>patchPiletPackage\<close> itself: the patch is written through
  \<^verbatim>\<open>updateExistingJson\<close> of \<^verbatim>\<open>./io\<close>, a parameter here, and the file list returned.\<close>

definition patchPiletPackage ::
  "'lang tooling \<Rightarrow> ('fs \<Rightarrow> string \<Rightarrow> string \<Rightarrow> package_patch \<Rightarrow> 'fs) \<Rightarrow>
     'fs \<times> log_entry list \<Rightarrow> string \<Rightarrow> string \<Rightarrow> string \<Rightarrow> manifest \<Rightarrow> 'lang option
     \<Rightarrow> ('fs \<times> log_entry list) \<times> file_entry list"
where
  "patchPiletPackage T updateExistingJson world root name version piralInfo language =
    (let (log', patch) = piletPatch T name version piralInfo language (snd world)
     in ((updateExistingJson (fst world) root ''package.json'' patch, log'),
         files (piral_info (piral patch))))"

section \<open>The file set resolver\<close>

text \<open>Node's \<^verbatim>\<open>path\<close> module is a parameter: the functions of it that the module
  imports. \<^verbatim>\<open>resolve\<close> and \<^verbatim>\<open>join\<close> take their arguments as a list.\<close>

record path_module =
  resolve :: "string list \<Rightarrow> string"
  join :: "string list \<Rightarrow> string"
  extname :: "string \<Rightarrow> string"
  basename :: "string \<Rightarrow> string"
  dirname :: "string \<Rightarrow> string"
  relative :: "string \<Rightarrow> string \<Rightarrow> string"

text \<open>Modelled from the spec: the enumeration \<^verbatim>\<open>ForceOverwrite\<close> of \<^verbatim>\<open>./io\<close> is not
  in the sources at hand, which only name its member \<^verbatim>\<open>yes\<close>. The spec speaks of a
  policy that preserves and of one that forces; \<^verbatim>\<open>prompt\<close> stands for asking.\<close>

datatype ForceOverwrite = no | prompt | yes

text \<open>The functions of \<^verbatim>\<open>./io\<close> that the module calls, and Node's \<^verbatim>\<open>require\<close>, over
  a file system \<open>'fs\<close>. They are parameters and total: a rejection inside one of them
  is not part of this module. \<^verbatim>\<open>require\<close> yields nothing when the file cannot be
  loaded as a manifest.\<close>

record 'fs io_module =
  checkExists :: "'fs \<Rightarrow> string \<Rightarrow> bool"
  checkIsDirectory :: "'fs \<Rightarrow> string \<Rightarrow> bool"
  matchFiles :: "'fs \<Rightarrow> string \<Rightarrow> string \<Rightarrow> string list"
  getHash :: "'fs \<Rightarrow> string \<Rightarrow> string"
  copy :: "'fs \<Rightarrow> string \<Rightarrow> string \<Rightarrow> ForceOverwrite \<Rightarrow> 'fs"
  require :: "'fs \<Rightarrow> string \<Rightarrow> manifest option"

record FileInfo =
  path :: string
  hash :: string
  changed :: bool

record subfile =
  sourcePath :: string
  targetPath :: string

definition getPiralPath :: "path_module \<Rightarrow> string \<Rightarrow> string \<Rightarrow> string" where
  "getPiralPath P root name = resolve P [root, ''node_modules'', name]"

definition getFilesOf ::
  "path_module \<Rightarrow> 'fs io_module \<Rightarrow> 'fs \<Rightarrow> string \<Rightarrow> string \<Rightarrow> file_entry \<Rightarrow> subfile list"
where
  "getFilesOf P IO fs root name file =
    (let loc = (case file of
                  FileName f \<Rightarrow> \<lparr>loc_from = f, loc_to = f, loc_deep = Some False\<rparr>
                | FileLocation l \<Rightarrow> l);
         deep = (case loc_deep loc of None \<Rightarrow> False | Some b \<Rightarrow> b);
         source = join P [getPiralPath P root name, loc_from loc];
         target = resolve P [root, loc_to loc];
         isDirectory = checkIsDirectory IO fs source
     in if isDirectory then
          (let pattern = (if deep then ''**/*'' else ''*'');
               matched = matchFiles IO fs source pattern
           in map (\<lambda>f. \<lparr>sourcePath = f,
                          targetPath = resolve P [target, relative P source f]\<rparr>) matched)
        else [\<lparr>sourcePath = source, targetPath = target\<rparr>])"

text \<open>\<^verbatim>\<open>getFileStats\<close> starts one task per entry and joins them; nothing is written,
  so every record is determined and only their order depends on the schedule. The
  model lists them in the order of the declaration.\<close>

definition getFileStats ::
  "path_module \<Rightarrow> 'fs io_module \<Rightarrow> 'fs \<Rightarrow> string \<Rightarrow> string \<Rightarrow> file_entry list \<Rightarrow> FileInfo list"
where
  "getFileStats P IO fs root name fileList =
    concat (map (\<lambda>file.
      map (\<lambda>sub.
             (let sourceHash = getHash IO fs (sourcePath sub);
                  targetHash = getHash IO fs (targetPath sub)
              in \<lparr>path = targetPath sub, hash = targetHash,
                  changed = (sourceHash \<noteq> targetHash)\<rparr>))
        (getFilesOf P IO fs root name file)) fileList)"

text \<open>\<^verbatim>\<open>copyPiralFiles\<close>: the inner loop, then the outer one, which resolves each entry
  on the file system as the copies before it left it. Beside the file system the
  model returns the calls of \<^verbatim>\<open>copy\<close> in their order.\<close>

record copy_call =
  copy_source :: string
  copy_target :: string
  copy_force :: ForceOverwrite

fun copySubfiles ::
  "'fs io_module \<Rightarrow> ForceOverwrite \<Rightarrow> FileInfo list \<Rightarrow> 'fs \<Rightarrow> subfile list
     \<Rightarrow> 'fs \<times> copy_call list"
where
  "copySubfiles IO forceOverwrite originalFiles fs [] = (fs, [])"
| "copySubfiles IO forceOverwrite originalFiles fs (sub # subs) =
    (let overwrite = list_ex (\<lambda>m. path m = targetPath sub \<and> \<not> changed m) originalFiles;
         force = (if overwrite then yes else forceOverwrite);
         fs' = copy IO fs (sourcePath sub) (targetPath sub) force;
         (fs'', calls) = copySubfiles IO forceOverwrite originalFiles fs' subs
     in (fs'', \<lparr>copy_source = sourcePath sub, copy_target = targetPath sub,
                 copy_force = force\<rparr> # calls))"

fun copyPiralFiles ::
  "path_module \<Rightarrow> 'fs io_module \<Rightarrow> string \<Rightarrow> string \<Rightarrow> file_entry list \<Rightarrow> ForceOverwrite
     \<Rightarrow> FileInfo list \<Rightarrow> 'fs \<Rightarrow> 'fs \<times> copy_call list"
where
  "copyPiralFiles P IO root name [] forceOverwrite originalFiles fs = (fs, [])"
| "copyPiralFiles P IO root name (file # rest) forceOverwrite originalFiles fs =
    (let subfiles = getFilesOf P IO fs root name file;
         (fs', calls) = copySubfiles IO forceOverwrite originalFiles fs subfiles;
         (fs'', calls') = copyPiralFiles P IO root name rest forceOverwrite originalFiles fs'
     in (fs'', calls @ calls'))"

section \<open>The host locator\<close>

datatype error = Error string | CannotLoad string

datatype io_call = CheckExists string | Require string

definition missing_package_json :: string where
  "missing_package_json =
    ''Cannot find a valid entry point. Missing package.json in '' @
    [CHR 0x22] @ ''%s'' @ [CHR 0x22] @ ''.''"

definition missing_field :: string where
  "missing_field =
    ''Cannot find a valid entry point. Missing field '' @ [CHR 0x22] @ ''%s'' @
    [CHR 0x22] @ '' in the '' @ [CHR 0x22] @ ''%s'' @ [CHR 0x22] @ ''.''"

text \<open>\<^verbatim>\<open>retrievePiralRoot\<close>: the log after the call, the file system accesses made, and
  the path or the error thrown.\<close>

definition retrievePiralRoot ::
  "path_module \<Rightarrow> 'fs io_module \<Rightarrow> 'fs \<Rightarrow> log_entry list \<Rightarrow> string \<Rightarrow> string
     \<Rightarrow> log_entry list \<times> io_call list \<times> (error + string)"
where
  "retrievePiralRoot P IO fs log baseDir entry =
    (let rootDir = join P [baseDir, entry]
     in if extname P rootDir \<noteq> ''.html'' then
          (let packageName = (if basename P rootDir = ''package.json'' then rootDir
                              else join P [rootDir, ''package.json''])
           in if \<not> checkExists IO fs packageName then
                (log @ [LogFail missing_package_json [rootDir]],
                 [CheckExists packageName],
                 Inl (Error ''Invalid Piral instance.''))
              else
                (case require IO fs packageName of
                   None \<Rightarrow>
                     (log, [CheckExists packageName, Require packageName],
                      Inl (CannotLoad packageName))
                 | Some pkg \<Rightarrow>
                     if \<not> truthy (pkg_app pkg) then
                       (log @ [LogFail missing_field [''app'', ''package.json'']],
                        [CheckExists packageName, Require packageName],
                        Inl (Error ''Invalid Piral instance.''))
                     else
                       (log, [CheckExists packageName, Require packageName],
                        Inr (join P [dirname P packageName, template (pkg_app pkg)]))))
        else (log, [], Inr rootDir))"

section \<open>The module loader\<close>

datatype jsvalue =
  JUndefined | JNull | JBool bool | JNum int | JStr string
  | JArr "jsvalue list" | JObj "(string \<times> jsvalue) list" | JFun nat

text \<open>The global \<^verbatim>\<open>System\<close> registry and the two helpers of \<^verbatim>\<open>../../utils\<close>, over a
  registry state \<open>'sys\<close> and a type \<open>'err\<close> of rejection reasons. An import is
  fulfilled with the module's exports or rejected. \<^verbatim>\<open>registerModule\<close> is handed the
  URL its thunk imports. \<^verbatim>\<open>setBasePath\<close> may write to the metadata object and returns
  the link.\<close>

record ('sys, 'err) module_system =
  system_has :: "'sys \<Rightarrow> string \<Rightarrow> bool"
  system_import :: "'sys \<Rightarrow> string \<Rightarrow> 'err + jsvalue object"
  registerModule :: "'sys \<Rightarrow> string \<Rightarrow> jsvalue \<Rightarrow> 'sys"
  setBasePath :: "jsvalue object \<Rightarrow> jsvalue \<Rightarrow> jsvalue object \<times> string"

text \<open>A property read \<^verbatim>\<open>o.k\<close>: undefined when the key is missing.\<close>

definition prop_of :: "jsvalue object \<Rightarrow> string \<Rightarrow> jsvalue" where
  "prop_of obj k = (case get obj k of None \<Rightarrow> JUndefined | Some v \<Rightarrow> v)"

type_synonym 'err console = "(string \<times> string \<times> 'err) list"

text \<open>A promise that has settled is its outcome, rejected on the left or fulfilled on
  the right, beside the console as the work so far left it. \<^verbatim>\<open>p.then(f, g)\<close> is
  fulfilled with what the handler that runs returns; \<^verbatim>\<open>p.then(f)\<close> passes a rejection
  on. The handlers get the console and return it, since one of them writes to it.\<close>

definition then_both ::
  "'c \<times> ('e + 'a) \<Rightarrow> ('c \<Rightarrow> 'a \<Rightarrow> 'c \<times> 'b) \<Rightarrow> ('c \<Rightarrow> 'e \<Rightarrow> 'c \<times> 'b) \<Rightarrow> 'c \<times> ('e + 'b)"
where
  "then_both p onFulfilled onRejected =
    (case snd p of
       Inr v \<Rightarrow> (let (c, r) = onFulfilled (fst p) v in (c, Inr r))
     | Inl e \<Rightarrow> (let (c, r) = onRejected (fst p) e in (c, Inr r)))"

definition then_one ::
  "'c \<times> ('e + 'a) \<Rightarrow> ('c \<Rightarrow> 'a \<Rightarrow> 'c \<times> 'b) \<Rightarrow> 'c \<times> ('e + 'b)"
where
  "then_one p onFulfilled =
    (case snd p of
       Inr v \<Rightarrow> (let (c, r) = onFulfilled (fst p) v in (c, Inr r))
     | Inl e \<Rightarrow> (fst p, Inl e))"

definition loadSystemModule ::
  "('sys, 'err) module_system \<Rightarrow> 'sys \<Rightarrow> 'err console \<Rightarrow> string
     \<Rightarrow> 'err console \<times> ('err + string \<times> jsvalue object)"
where
  "loadSystemModule M sys console source =
    then_both (console, system_import M sys source)
      (\<lambda>c v. (c, (source, v)))
      (\<lambda>c error. (c @ [(''Failed to load SystemJS module'', source, error)], (source, [])))"

text \<open>The registration loop of \<^verbatim>\<open>loader\<close> over \<^verbatim>\<open>Object.keys(deps)\<close>.\<close>

definition registerDependencies ::
  "('sys, 'err) module_system \<Rightarrow> jsvalue object \<Rightarrow> 'sys \<Rightarrow> 'sys"
where
  "registerDependencies M deps sys =
    foldl (\<lambda>s depName.
             if \<not> system_has M s depName then registerModule M s depName (prop_of deps depName)
             else s)
      sys (keys deps)"

text \<open>\<^verbatim>\<open>loader\<close>: \<^verbatim>\<open>dependencies\<close> is an object or missing, as its type says. The
  configuration is not read.\<close>

definition loader ::
  "('sys, 'err) module_system \<Rightarrow> 'sys \<Rightarrow> 'err console \<Rightarrow> jsvalue object \<Rightarrow> 'config
     \<Rightarrow> 'err console \<times> ('err + jsvalue object)"
where
  "loader M sys console meta config =
    (let deps = prop_of meta ''dependencies'';
         (meta', link) = setBasePath M meta (prop_of meta ''link'');
         sys' = (case deps of JObj d \<Rightarrow> registerDependencies M d sys | _ \<Rightarrow> sys)
     in then_one (loadSystemModule M sys' console link)
          (\<lambda>c (source, app). (c, spread (spread [] meta') app)))"

section \<open>Collaborators outside the sources\<close>

text \<open>A file tree for the examples: its regular files, each an absolute path with
  \<^verbatim>\<open>/\<close> as the separator and its content. A directory is a path with a file below it.\<close>

type_synonym file_tree = "(string \<times> string) list"

definition below :: "string \<Rightarrow> string \<Rightarrow> bool" where
  "below dir f = (length dir + 1 < length f \<and> take (length dir + 1) f = dir @ ''/'')"

definition child_of :: "string \<Rightarrow> string \<Rightarrow> bool" where
  "child_of dir f = (below dir f \<and> CHR ''/'' \<notin> set (drop (length dir + 1) f))"

definition tree_isDirectory :: "file_tree \<Rightarrow> string \<Rightarrow> bool" where
  "tree_isDirectory fs p = list_ex (\<lambda>f. below p f) (map fst fs)"

definition tree_exists :: "file_tree \<Rightarrow> string \<Rightarrow> bool" where
  "tree_exists fs p = (p \<in> set (map fst fs) \<or> tree_isDirectory fs p)"

text \<open>Modelled from the spec: \<^verbatim>\<open>matchFiles\<close> of \<^verbatim>\<open>./io\<close> is not in the sources at hand.
  The spec has the recursive pattern match all files below the directory and the
  other one only the direct children of the directory.\<close>

definition tree_matchFiles :: "file_tree \<Rightarrow> string \<Rightarrow> string \<Rightarrow> string list" where
  "tree_matchFiles fs dir pattern =
    (if pattern = ''**/*'' then filter (below dir) (map fst fs)
     else if pattern = ''*'' then filter (child_of dir) (map fst fs)
     else [])"

text \<open>Modelled from the spec: \<^verbatim>\<open>getHash\<close> of \<^verbatim>\<open>./io\<close>, a fingerprint of the content with
  a fixed value for a file that is not there. The content stands for its own
  fingerprint.\<close>

definition tree_getHash :: "file_tree \<Rightarrow> string \<Rightarrow> string" where
  "tree_getHash fs p = (case map_of fs p of None \<Rightarrow> [] | Some c \<Rightarrow> c)"

text \<open>Modelled from the spec: \<^verbatim>\<open>copy\<close> of \<^verbatim>\<open>./io\<close>. A target that exists is overwritten
  only when the policy forces it; a source that is missing copies nothing.\<close>

definition tree_copy :: "file_tree \<Rightarrow> string \<Rightarrow> string \<Rightarrow> ForceOverwrite \<Rightarrow> file_tree" where
  "tree_copy fs source target force =
    (case map_of fs source of
       None \<Rightarrow> fs
     | Some c \<Rightarrow>
         if map_of fs target \<noteq> None \<and> force \<noteq> yes then fs
         else AList.update target c fs)"

definition tree_io :: "(string \<times> manifest) list \<Rightarrow> file_tree io_module" where
  "tree_io manifests =
    \<lparr>checkExists = tree_exists, checkIsDirectory = tree_isDirectory,
     matchFiles = tree_matchFiles, getHash = tree_getHash, copy = tree_copy,
     require = (\<lambda>fs p. if tree_exists fs p then map_of manifests p else None)\<rparr>"

text \<open>An instance of the path module for the examples: it is right on POSIX paths that
  are normalised already (no \<^verbatim>\<open>.\<close> or \<^verbatim>\<open>..\<close> segment, no doubled or trailing
  separator), with an absolute first argument.\<close>

fun slash_join :: "string list \<Rightarrow> string" where
  "slash_join [] = []"
| "slash_join [a] = a"
| "slash_join (a # b # rest) = a @ ''/'' @ slash_join (b # rest)"

definition posix_resolve :: "string list \<Rightarrow> string" where
  "posix_resolve parts =
    foldl (\<lambda>acc p. if take 1 p = ''/'' then p else if p = [] then acc else acc @ ''/'' @ p)
      [] parts"

definition posix_basename :: "string \<Rightarrow> string" where
  "posix_basename p = rev (takeWhile (\<lambda>c. c \<noteq> CHR ''/'') (rev p))"

definition posix_dirname :: "string \<Rightarrow> string" where
  "posix_dirname p = rev (drop 1 (dropWhile (\<lambda>c. c \<noteq> CHR ''/'') (rev p)))"

definition posix_extname :: "string \<Rightarrow> string" where
  "posix_extname p =
    (let b = posix_basename p;
         ext = takeWhile (\<lambda>c. c \<noteq> CHR ''.'') (rev b)
     in if length ext + 1 < length b then ''.'' @ rev ext else [])"

definition posix_relative :: "string \<Rightarrow> string \<Rightarrow> string" where
  "posix_relative from_dir to_file =
    (if below from_dir to_file then drop (length from_dir + 1) to_file else to_file)"

definition posix :: path_module where
  "posix = \<lparr>resolve = posix_resolve, join = slash_join, extname = posix_extname,
            basename = posix_basename, dirname = posix_dirname,
            relative = posix_relative\<rparr>"

text \<open>Modelled from the spec: \<^verbatim>\<open>updateExistingJson\<close> of \<^verbatim>\<open>./io\<close> is not in the sources at
  hand. The spec has it merge the patch shallowly into the JSON that exists, keeping
  the fields the patch does not name. A document is the object of its top-level
  fields, a field being one of the blocks of the patch or anything else; the documents
  are stored by directory and file name, and where there is none nothing is
  written.\<close>

datatype block =
  Section piral_section
  | Dependencies "string field object"
  | Strings "string object"
  | Other string

type_synonym document = "block object"

type_synonym store = "((string \<times> string) \<times> document) list"

definition merge_patch :: "document \<Rightarrow> package_patch \<Rightarrow> document" where
  "merge_patch doc patch =
    spread doc
      [(''piral'', Section (piral patch)),
       (''devDependencies'', Dependencies (patch_devDependencies patch)),
       (''peerDependencies'', Strings (patch_peerDependencies patch)),
       (''scripts'', Strings (patch_scripts patch))]"

definition store_updateExistingJson :: "store \<Rightarrow> string \<Rightarrow> string \<Rightarrow> package_patch \<Rightarrow> store" where
  "store_updateExistingJson st dir file patch =
    (case map_of st (dir, file) of
       None \<Rightarrow> st
     | Some doc \<Rightarrow> AList.update (dir, file) (merge_patch doc patch) st)"

section \<open>Inputs of the examples\<close>

definition example_tooling :: "unit tooling" where
  "example_tooling =
    \<lparr>cliVersion = ''0.10.9'',
     getDevDependencies = (\<lambda>_. [(''typescript'', ''latest''), (''@types/react'', ''latest'')]),
     language_truthy = (\<lambda>_. True)\<rparr>"

definition no_pilets :: pilets_block where
  "no_pilets =
    \<lparr>raw_files = None, raw_externals = None, raw_scripts = None, raw_validators = None,
     raw_devDependencies = None, raw_preScaffold = None, raw_postScaffold = None,
     raw_preUpgrade = None, raw_postUpgrade = None\<rparr>"

text \<open>The host of the end-to-end example: one external, with a version among the
  dependencies of the host.\<close>

definition example_host :: manifest where
  "example_host =
    \<lparr>pkg_name = None, pkg_version = None, pkg_app = None,
     pkg_dependencies = Some [(''shared-lib'', ''2.1.0'')], pkg_devDependencies = None,
     pkg_pilets = Some (no_pilets\<lparr>raw_externals := Some [''shared-lib'']\<rparr>)\<rparr>"

text \<open>A host that declares development dependencies for its pilets: an empty literal,
  a sentinel with nothing to look up, a literal, and a sentinel that the development
  dependencies of the host resolve.\<close>

definition declaring_host :: manifest where
  "declaring_host =
    \<lparr>pkg_name = None, pkg_version = Some ''3.0.0'', pkg_app = None,
     pkg_dependencies = Some [(''qux'', ''1.0.0'')],
     pkg_devDependencies = Some [(''qux'', ''4.0.0'')],
     pkg_pilets = Some (no_pilets\<lparr>raw_devDependencies :=
       Some [(''foo'', Literal []), (''bar'', Sentinel), (''baz'', Literal ''1.2.3''),
             (''qux'', Sentinel)]\<rparr>)\<rparr>"

text \<open>A host whose externals name the CLI itself and a library with an empty version.\<close>

definition overriding_host :: manifest where
  "overriding_host =
    \<lparr>pkg_name = None, pkg_version = Some ''3.0.0'', pkg_app = None,
     pkg_dependencies = Some [(''shared-lib'', []), (''piral-cli'', ''0.9.0'')],
     pkg_devDependencies = None,
     pkg_pilets = Some (no_pilets\<lparr>raw_externals := Some [''shared-lib'', ''piral-cli'']\<rparr>)\<rparr>"

text \<open>A working directory \<^verbatim>\<open>/w\<close> with the host package \<^verbatim>\<open>app\<close> installed: a template
  directory with one file and one subdirectory, a single template file, and the
  manifest of a host in \<^verbatim>\<open>/w/host\<close>. The pilet has one file that was edited and one
  that is as the template has it.\<close>

definition example_tree :: file_tree where
  "example_tree =
    [(''/w/node_modules/app/tpl/a.txt'', ''A''),
     (''/w/node_modules/app/tpl/sub/b.txt'', ''B''),
     (''/w/node_modules/app/one.txt'', ''1''),
     (''/w/host/package.json'', ''{}''),
     (''/w/one.txt'', ''edited''),
     (''/w/out/a.txt'', ''A'')]"

definition example_pilet_host :: manifest where
  "example_pilet_host =
    \<lparr>pkg_name = Some ''app'', pkg_version = Some ''3.0.0'', pkg_app = Some ''src/index.html'',
     pkg_dependencies = None, pkg_devDependencies = None, pkg_pilets = None\<rparr>"

definition example_manifests :: "(string \<times> manifest) list" where
  "example_manifests = [(''/w/host/package.json'', example_pilet_host)]"

text \<open>A metadata object, a module, and a registry that fulfils the import of the entry
  with the module or rejects it; its state is the list of the registered names.\<close>

definition example_meta :: "jsvalue object" where
  "example_meta =
    [(''name'', JStr ''my-pilet''), (''version'', JStr ''1.0.0''),
     (''link'', JStr ''https://cdn/pilet/index.js''),
     (''dependencies'', JObj [(''lib'', JStr ''https://cdn/lib.js'')])]"

definition example_module :: "jsvalue object" where
  "example_module = [(''setup'', JFun 0), (''name'', JStr ''from-module'')]"

definition example_system :: "bool \<Rightarrow> (string list, string) module_system" where
  "example_system ok =
    \<lparr>system_has = (\<lambda>s n. n \<in> set s),
     system_import = (\<lambda>s url. if ok then Inr example_module else Inl ''404''),
     registerModule = (\<lambda>s n url. s @ [n]),
     setBasePath = (\<lambda>meta link. (meta, case link of JStr l \<Rightarrow> l | _ \<Rightarrow> []))\<rparr>"

text \<open>C10 in the words of the claim: a string entry read as the location it stands
  for.\<close>

fun asLocation :: "file_entry \<Rightarrow> file_entry" where
  "asLocation (FileName f) = FileLocation \<lparr>loc_from = f, loc_to = f, loc_deep = Some False\<rparr>"
| "asLocation (FileLocation l) = FileLocation l"

text \<open>The statistics of a pass over the files of the example, and the files.\<close>

definition example_files :: "file_entry list" where
  "example_files =
    [FileName ''one.txt'',
     FileLocation \<lparr>loc_from = ''tpl'', loc_to = ''out'', loc_deep = Some True\<rparr>]"

definition example_stats :: "FileInfo list" where
  "example_stats =
    [\<lparr>path = ''/w/one.txt'', hash = ''edited'', changed = True\<rparr>,
     \<lparr>path = ''/w/out/a.txt'', hash = ''A'', changed = False\<rparr>,
     \<lparr>path = ''/w/out/sub/b.txt'', hash = [], changed = True\<rparr>]"

text \<open>The manifest of a pilet in \<^verbatim>\<open>/w\<close> before the reconciliation.\<close>

definition example_store :: store where
  "example_store =
    [((''/w'', ''package.json''),
      [(''name'', Other ''my-pilet''),
       (''devDependencies'', Dependencies [(''left-pad'', Value ''1.3.0'')]),
       (''license'', Other ''MIT'')])]"

text \<open>The tree of the example after the host package was upgraded: the templates have
  new content, the files of the pilet are as they were.\<close>

definition upgraded_tree :: file_tree where
  "upgraded_tree =
    [(''/w/node_modules/app/tpl/a.txt'', ''A2''),
     (''/w/node_modules/app/tpl/sub/b.txt'', ''B''),
     (''/w/node_modules/app/one.txt'', ''2''),
     (''/w/host/package.json'', ''{}''),
     (''/w/one.txt'', ''edited''),
     (''/w/out/a.txt'', ''A'')]"

section \<open>Auxiliary functions of the proofs\<close>

text \<open>What \<^const>\<open>getDependencyVersion\<close> returns and what it logs, apart.\<close>

definition version_for ::
  "declared object \<Rightarrow> string object \<Rightarrow> string \<Rightarrow> string field" where
  "version_for devDeps allDeps n = snd (getDependencyVersion n devDeps allDeps [])"

definition warnings_for :: "declared object \<Rightarrow> string object \<Rightarrow> string \<Rightarrow> log_entry list" where
  "warnings_for devDeps allDeps n = fst (getDependencyVersion n devDeps allDeps [])"

section \<open>Objects: lookups after updates and spreads\<close>

lemma get_Nil: "get [] k = None"
  by (simp add: get_def)

lemma wf_Nil: "wf_object []"
  by (simp add: wf_object_def)

lemma get_update: "get (AList.update k v al) k' = (if k' = k then Some v else get al k')"
  by (simp add: get_def update_conv')

text \<open>A read finds the own value; without one it finds nothing unless the key names a
  member of the prototype.\<close>

lemma read_own: "get obj k = Some v \<Longrightarrow> read obj k = Some (Value v)"
  by (simp add: read_def)

lemma read_absent: "get obj k = None \<Longrightarrow> k \<notin> set object_prototype \<Longrightarrow> read obj k = None"
  by (simp add: read_def)

text \<open>A spread reads its source from the left, so the last definition of a key wins.\<close>

lemma get_spread:
  "get (spread t s) k = (case map_of (rev s) k of Some v \<Rightarrow> Some v | None \<Rightarrow> get t k)"
  unfolding spread_def get_def
  by (induction s arbitrary: t) (auto simp: update_conv' split: option.splits)

lemma map_of_rev_distinct: "distinct (map fst xs) \<Longrightarrow> map_of (rev xs) = map_of xs"
proof (induction xs)
  case Nil
  then show ?case by simp
next
  case (Cons x xs)
  then have "fst x \<notin> dom (map_of xs)" by (simp add: dom_map_of_conv_image_fst)
  then have "map_of xs (fst x) = None" by blast
  with Cons show ?case by (cases x) (auto simp: fun_eq_iff map_add_def split: option.splits)
qed

lemma get_spread_wf:
  "wf_object s \<Longrightarrow>
   get (spread t s) k = (case get s k of Some v \<Rightarrow> Some v | None \<Rightarrow> get t k)"
  using get_spread [of t s k] by (simp add: wf_object_def map_of_rev_distinct get_def)

lemma get_spread_single:
  "get (spread t [(k', v)]) k = (if k = k' then Some v else get t k)"
  by (simp add: get_spread)

lemma wf_update: "wf_object al \<Longrightarrow> wf_object (AList.update k v al)"
  by (simp add: wf_object_def distinct_update)

lemma wf_foldl_update:
  "wf_object acc \<Longrightarrow> wf_object (foldl (\<lambda>deps n. AList.update n (f n) deps) acc ns)"
  by (induction ns arbitrary: acc) (simp_all add: wf_update)

lemma get_foldl_update:
  "get (foldl (\<lambda>deps n. AList.update n (f n) deps) acc ns) k =
     (if k \<in> set ns then Some (f k) else get acc k)"
  by (induction ns arbitrary: acc) (auto simp: get_update)

text \<open>Spreading an object into an object that shares no key with it appends it; so
  \<^verbatim>\<open>{ ...o }\<close> is a copy of \<open>o\<close>.\<close>

lemma spread_append: "distinct (map fst (t @ s)) \<Longrightarrow> spread t s = t @ s"
  unfolding spread_def
proof (induction s arbitrary: t)
  case Nil
  then show ?case by simp
next
  case (Cons x s)
  obtain k v where x: "x = (k, v)" by (cases x)
  from Cons.prems have "k \<notin> fst ` set t" by (auto simp: x)
  then have upd: "AList.update k v t = t @ [(k, v)]"
    by (induction t) auto
  from Cons.prems have "distinct (map fst ((t @ [(k, v)]) @ s))" by (auto simp: x)
  from Cons.IH [OF this] show ?case by (simp add: x upd)
qed

lemma spread_empty: "spread t [] = t"
  by (simp add: spread_def)

lemma spread_Nil_wf: "wf_object s \<Longrightarrow> spread [] s = s"
  using spread_append [of "[]" s] by (simp add: wf_object_def)

section \<open>The layers of the reconciled development dependencies\<close>

lemma unresolved_warning_inj: "unresolved_warning n = unresolved_warning m \<longleftrightarrow> n = m"
  by (auto simp: unresolved_warning_def)

lemma getDependencyVersion_split:
  "getDependencyVersion n d a lg = (lg @ warnings_for d a n, version_for d a n)"
  by (simp add: getDependencyVersion_def warnings_for_def version_for_def Let_def)

lemma declaredLayer_foldl:
  "foldl (\<lambda>(lg, deps) n.
             (let (lg', v) = getDependencyVersion n d a lg
              in (lg', AList.update n v deps))) (lg0, deps0) ns
   = (lg0 @ concat (map (warnings_for d a) ns),
      foldl (\<lambda>deps n. AList.update n (version_for d a n) deps) deps0 ns)"
  by (induction ns arbitrary: lg0 deps0) (simp_all add: getDependencyVersion_split)

text \<open>The second reduction appends the warnings of the names in their order and
  builds its object without reading the log.\<close>

lemma declaredLayer_eq:
  "declaredLayer d a lg =
    (lg @ concat (map (warnings_for d a) (keys d)),
     foldl (\<lambda>deps n. AList.update n (version_for d a n) deps) [] (keys d))"
  unfolding declaredLayer_def by (rule declaredLayer_foldl)

lemma count_warnings:
  "distinct ns \<Longrightarrow>
   count_list (concat (map (warnings_for d a) ns)) (LogWarn (unresolved_warning n)) =
     (if n \<in> set ns then length (warnings_for d a n) else 0)"
  by (induction ns)
    (auto simp: warnings_for_def getDependencyVersion_def Let_def unresolved_warning_inj)

lemma version_for_eq:
  "get d n = Some decl \<Longrightarrow>
   version_for d a n =
     or_else (case decl of Literal s \<Rightarrow> Some (Value s) | Sentinel \<Rightarrow> read a n)
       (Value ''latest'')"
  by (simp add: version_for_def getDependencyVersion_def read_def Let_def
      split: declared.splits)

lemma warnings_for_eq:
  "get d n = Some decl \<Longrightarrow>
   warnings_for d a n =
     (if truthy_field (case decl of Literal s \<Rightarrow> Some (Value s) | Sentinel \<Rightarrow> read a n)
      then []
      else [LogWarn (unresolved_warning n)])"
  by (simp add: warnings_for_def getDependencyVersion_def read_def Let_def
      split: declared.splits)

lemma get_declaredLayer:
  "get (snd (declaredLayer d a lg)) k =
     (if k \<in> set (keys d) then Some (version_for d a k) else None)"
  by (simp add: declaredLayer_eq get_foldl_update get_Nil)

lemma wf_declaredLayer: "wf_object (snd (declaredLayer d a lg))"
  by (simp add: declaredLayer_eq wf_foldl_update wf_Nil)

lemma wf_typeLayer: "wf_object (typeLayer td a)"
  unfolding typeLayer_def
proof -
  have "wf_object acc \<Longrightarrow>
      wf_object (foldl (\<lambda>deps (n, v). AList.update n (or_else (read a n) (Value v)) deps)
                   acc td)" for acc
    by (induction td arbitrary: acc) (auto simp: wf_update)
  then show "wf_object (foldl (\<lambda>deps (n, v). AList.update n (or_else (read a n) (Value v)) deps)
                          [] td)"
    by (simp add: wf_Nil)
qed

lemma get_externalsLayer:
  "get (externalsLayer exts deps) k =
     (if k \<in> set exts then Some (or_else (read deps k) (Value ''latest'')) else None)"
  by (simp add: externalsLayer_def get_foldl_update get_Nil)

lemma wf_externalsLayer: "wf_object (externalsLayer exts deps)"
  by (simp add: externalsLayer_def wf_foldl_update wf_Nil)

text \<open>The union of the host's dependencies: the development dependencies win.\<close>

lemma get_allDependencies:
  assumes "wf_object (or_empty (pkg_dependencies piralInfo))"
    and "wf_object (or_empty (pkg_devDependencies piralInfo))"
  shows "get (allDependencies piralInfo) n =
    (case get (or_empty (pkg_devDependencies piralInfo)) n of
       Some v \<Rightarrow> Some v
     | None \<Rightarrow> get (or_empty (pkg_dependencies piralInfo)) n)"
  unfolding allDependencies_def
  by (simp add: get_spread_wf assms get_Nil split: option.splits)

section \<open>The patch of \<^verbatim>\<open>patchPiletPackage\<close>\<close>

lemma fst_piletPatch:
  "fst (piletPatch T name version piralInfo language log) =
     fst (declaredLayer (devDependencies (getPiletsInfo piralInfo))
            (allDependencies piralInfo) log)"
  by (simp add: piletPatch_def Let_def info.truncate_def split: prod.splits)

text \<open>The patch does not depend on the log it is computed under.\<close>

lemma snd_piletPatch_log:
  "snd (piletPatch T name version piralInfo language lg) =
   snd (piletPatch T name version piralInfo language lg')"
proof -
  have "snd (declaredLayer d a lg) = snd (declaredLayer d a lg')" for d a
    by (simp add: declaredLayer_eq)
  then show ?thesis
    by (simp add: piletPatch_def Let_def split_beta)
qed

lemma patch_peerDependencies_eq:
  "patch_peerDependencies (snd (piletPatch T name version piralInfo language log)) =
     peerDependencies (externals (getPiletsInfo piralInfo)) name"
  by (simp add: piletPatch_def Let_def split: prod.splits)

lemma get_peerDependencies:
  "get (peerDependencies exts name) k =
     (if k = name \<or> k \<in> set (map fst shared_peers) \<or> k \<in> set exts then Some ''*'' else None)"
proof -
  have wf: "wf_object shared_peers" by (simp add: wf_object_def shared_peers_def)
  have sp: "get shared_peers k = (if k \<in> set (map fst shared_peers) then Some ''*'' else None)"
    by (simp add: get_def shared_peers_def)
  have ext: "get (spread [] (foldl (\<lambda>deps n. AList.update n ''*'' deps) [] exts)) k =
      (if k \<in> set exts then Some ''*'' else None)"
    by (simp add: get_spread_wf wf_foldl_update wf_Nil get_foldl_update get_Nil)
  show ?thesis
    unfolding peerDependencies_def get_spread_single get_spread_wf [OF wf] sp ext
    by simp
qed

text \<open>Every lookup in the reconciled development dependencies, by the layer that
  decides it: the forced entries, then the externals, then the declarations of the
  host, then the baseline of the language.\<close>

lemma get_patch_devDependencies:
  "get (patch_devDependencies (snd (piletPatch T name version piralInfo language log))) k =
    (if k = ''piral-cli'' then Some (Value (''^'' @ cliVersion T))
     else if k = name
       then Some (Value (template (version_or version (pkg_version piralInfo))))
     else if k \<in> set (externals (getPiletsInfo piralInfo))
       then Some (or_else (read (or_empty (pkg_dependencies piralInfo)) k) (Value ''latest''))
     else if k \<in> set (keys (devDependencies (getPiletsInfo piralInfo)))
       then Some (version_for (devDependencies (getPiletsInfo piralInfo))
                    (allDependencies piralInfo) k)
     else get (typeLayer (typeDependencies T language) (allDependencies piralInfo)) k)"
proof -
  obtain lg dd where dl:
    "declaredLayer (devDependencies (getPiletsInfo piralInfo)) (allDependencies piralInfo) log
       = (lg, dd)"
    by (cases "declaredLayer (devDependencies (getPiletsInfo piralInfo))
                 (allDependencies piralInfo) log")
  have dd: "dd = snd (declaredLayer (devDependencies (getPiletsInfo piralInfo))
                        (allDependencies piralInfo) log)"
    by (simp add: dl)
  have wfdd: "wf_object dd" unfolding dd by (rule wf_declaredLayer)
  have getdd: "get dd k =
      (if k \<in> set (keys (devDependencies (getPiletsInfo piralInfo)))
       then Some (version_for (devDependencies (getPiletsInfo piralInfo))
                    (allDependencies piralInfo) k)
       else None)"
    unfolding dd by (rule get_declaredLayer)
  have last2: "get (spread t [(name, v1), (''piral-cli'', v2)]) k =
      (if k = ''piral-cli'' then Some v2 else if k = name then Some v1 else get t k)"
    for t :: "string field object" and v1 v2
    by (simp add: get_spread)
  have eq: "patch_devDependencies (snd (piletPatch T name version piralInfo language log)) =
      spread
        (spread
           (spread
              (spread [] (typeLayer (typeDependencies T language) (allDependencies piralInfo)))
              dd)
           (externalsLayer (externals (getPiletsInfo piralInfo))
              (or_empty (pkg_dependencies piralInfo))))
        [(name, Value (template (version_or version (pkg_version piralInfo)))),
         (''piral-cli'', Value (''^'' @ cliVersion T))]"
    using dl by (simp add: piletPatch_def Let_def info.truncate_def)
  show ?thesis
    unfolding eq last2 get_spread_wf [OF wf_externalsLayer] get_externalsLayer
      get_spread_wf [OF wfdd] getdd get_spread_wf [OF wf_typeLayer] get_Nil
    by (simp split: option.splits)
qed

text \<open>The development dependencies and the log of the example hosts.\<close>

lemma example_host_patch:
  "patch_devDependencies
     (snd (piletPatch example_tooling ''my-pilet'' ''1.0.0'' example_host None [])) =
     [(''shared-lib'', Value ''2.1.0''), (''my-pilet'', Value ''1.0.0''),
      (''piral-cli'', Value ''^0.10.9'')]"
  by (simp add: piletPatch_def Let_def info.truncate_def getPiletsInfo_def example_host_def
      no_pilets_def example_tooling_def declaredLayer_def keys_def typeLayer_def
      typeDependencies_def externalsLayer_def allDependencies_def spread_def get_def
      version_or_def read_def object_prototype_def)

lemma declaring_host_patch:
  "fst (piletPatch example_tooling ''my-pilet'' [] declaring_host None []) =
     [LogWarn (unresolved_warning ''foo''), LogWarn (unresolved_warning ''bar'')] \<and>
   patch_devDependencies
     (snd (piletPatch example_tooling ''my-pilet'' [] declaring_host None [])) =
     [(''foo'', Value ''latest''), (''bar'', Value ''latest''), (''baz'', Value ''1.2.3''),
      (''qux'', Value ''4.0.0''), (''my-pilet'', Value ''3.0.0''),
      (''piral-cli'', Value ''^0.10.9'')]"
  by (simp add: piletPatch_def Let_def info.truncate_def getPiletsInfo_def declaring_host_def
      no_pilets_def example_tooling_def declaredLayer_def keys_def typeLayer_def
      typeDependencies_def externalsLayer_def allDependencies_def spread_def get_def
      version_or_def getDependencyVersion_def read_def object_prototype_def)

lemma overriding_host_patch:
  "patch_devDependencies
     (snd (piletPatch example_tooling ''piral-cli'' ''1.0.0'' overriding_host None [])) =
     [(''shared-lib'', Value ''latest''), (''piral-cli'', Value ''^0.10.9'')]"
  by (simp add: piletPatch_def Let_def info.truncate_def getPiletsInfo_def overriding_host_def
      no_pilets_def example_tooling_def declaredLayer_def keys_def typeLayer_def
      typeDependencies_def externalsLayer_def allDependencies_def spread_def get_def
      version_or_def read_def object_prototype_def)

section \<open>Claims about the dependency reconciler\<close>

text \<open>
  C2, as amended. For every name that the host declares under
  \<^verbatim>\<open>pilets.devDependencies\<close>: the specifier that the reconciliation resolves for it is the
  declared literal when that is a string that is not empty; for the sentinel
  \<^verbatim>\<open>true\<close> it is the entry of the name in the union of the host's dependencies and
  development dependencies (the latter win) when that entry is there and not empty;
  in every other case it is \<^verbatim>\<open>latest\<close>, and then exactly one warning is logged for the
  name, none otherwise. Where the sentinel finds no entry, this is said of the names
  that are not names of members of \<^verbatim>\<open>Object.prototype\<close>. The specifier is the one of the
  reconciled development dependencies unless a later layer sets the name: the
  externals, the given name, \<^verbatim>\<open>piral-cli\<close>.
\<close>

theorem declared_version_resolution:
  assumes wf: "wf_object (devDependencies (getPiletsInfo piralInfo))"
    and wfd: "wf_object (or_empty (pkg_dependencies piralInfo))"
    and wfdd: "wf_object (or_empty (pkg_devDependencies piralInfo))"
    and decl: "get (devDependencies (getPiletsInfo piralInfo)) n = Some d"
    and own: "d = Sentinel \<and> get (or_empty (pkg_devDependencies piralInfo)) n = None \<and>
              get (or_empty (pkg_dependencies piralInfo)) n = None
              \<longrightarrow> n \<notin> set object_prototype"
  shows
    "(let looked = (case get (or_empty (pkg_devDependencies piralInfo)) n of
                      Some v \<Rightarrow> Some v
                    | None \<Rightarrow> get (or_empty (pkg_dependencies piralInfo)) n);
          selected = (case d of Literal s \<Rightarrow> Some s | Sentinel \<Rightarrow> looked);
          resolves = (case selected of Some s \<Rightarrow> s \<noteq> [] | None \<Rightarrow> False);
          specifier = (if resolves then the selected else ''latest'')
      in get (snd (declaredLayer (devDependencies (getPiletsInfo piralInfo))
                     (allDependencies piralInfo) log)) n = Some (Value specifier) \<and>
         (\<exists>emitted.
            fst (piletPatch T name version piralInfo language log) = log @ emitted \<and>
            count_list emitted (LogWarn (unresolved_warning n)) = (if resolves then 0 else 1)) \<and>
         (n \<notin> set (externals (getPiletsInfo piralInfo)) \<and> n \<noteq> name \<and> n \<noteq> ''piral-cli'' \<longrightarrow>
            get (patch_devDependencies (snd (piletPatch T name version piralInfo language log))) n
              = Some (Value specifier)))"
proof -
  let ?dd = "devDependencies (getPiletsInfo piralInfo)"
  let ?a = "allDependencies piralInfo"
  let ?looked = "case get (or_empty (pkg_devDependencies piralInfo)) n of
                      Some v \<Rightarrow> Some v
                    | None \<Rightarrow> get (or_empty (pkg_dependencies piralInfo)) n"
  let ?selected = "case d of Literal s \<Rightarrow> Some s | Sentinel \<Rightarrow> ?looked"
  let ?sel = "case d of Literal s \<Rightarrow> Some (Value s) | Sentinel \<Rightarrow> read ?a n"
  have looked: "get ?a n = ?looked" by (rule get_allDependencies [OF wfd wfdd])
  have rd: "read ?a n = map_option Value ?looked" if "d = Sentinel"
  proof (cases "?looked")
    case None
    then have "get (or_empty (pkg_devDependencies piralInfo)) n = None"
      "get (or_empty (pkg_dependencies piralInfo)) n = None"
      by (simp_all split: option.splits)
    with own that have "n \<notin> set object_prototype" by simp
    with None looked show ?thesis by (simp add: read_absent)
  next
    case (Some v)
    with looked show ?thesis by (simp add: read_own)
  qed
  have sel: "?sel = map_option Value ?selected"
    by (cases d) (simp_all add: rd)
  have mem: "n \<in> set (keys ?dd)"
    using decl by (auto simp: get_def keys_def dest: map_of_SomeD intro: rev_image_eqI)
  have tr: "truthy_field (map_option Value x) = (case x of Some s \<Rightarrow> s \<noteq> [] | None \<Rightarrow> False)"
    for x
    by (cases x) simp_all
  have oe: "or_else (map_option Value x) (Value ''latest'') =
      Value (if (case x of Some s \<Rightarrow> s \<noteq> [] | None \<Rightarrow> False) then the x else ''latest'')"
    for x
    by (cases x) simp_all
  have ver: "version_for ?dd ?a n =
      Value (if (case ?selected of Some s \<Rightarrow> s \<noteq> [] | None \<Rightarrow> False) then the ?selected
             else ''latest'')"
    unfolding version_for_eq [OF decl, of ?a] sel oe ..
  have warn: "warnings_for ?dd ?a n =
      (if (case ?selected of Some s \<Rightarrow> s \<noteq> [] | None \<Rightarrow> False) then []
       else [LogWarn (unresolved_warning n)])"
    unfolding warnings_for_eq [OF decl, of ?a] sel tr ..
  have dist: "distinct (keys ?dd)" using wf by (simp add: wf_object_def keys_def)
  have cnt: "count_list (concat (map (warnings_for ?dd ?a) (keys ?dd)))
      (LogWarn (unresolved_warning n)) =
      (if (case ?selected of Some s \<Rightarrow> s \<noteq> [] | None \<Rightarrow> False) then 0 else 1)"
    by (simp add: count_warnings [OF dist] mem warn)
  have log: "fst (piletPatch T name version piralInfo language log) =
      log @ concat (map (warnings_for ?dd ?a) (keys ?dd))"
    by (simp add: fst_piletPatch declaredLayer_eq)
  have layer: "get (snd (declaredLayer ?dd ?a log)) n = Some (version_for ?dd ?a n)"
    by (simp add: get_declaredLayer mem)
  have final: "n \<notin> set (externals (getPiletsInfo piralInfo)) \<Longrightarrow> n \<noteq> name \<Longrightarrow>
      n \<noteq> ''piral-cli'' \<Longrightarrow>
      get (patch_devDependencies (snd (piletPatch T name version piralInfo language log))) n
        = Some (version_for ?dd ?a n)"
    by (simp add: get_patch_devDependencies mem)
  show ?thesis
    unfolding Let_def
    using layer final cnt log unfolding ver by blast
qed

text \<open>The witness: \<^verbatim>\<open>bar\<close> is declared \<^verbatim>\<open>true\<close> and the host has no version of it.\<close>

theorem declared_version_resolution_witness:
  "get (devDependencies (getPiletsInfo declaring_host)) ''bar'' = Some Sentinel \<and>
   get (snd (declaredLayer (devDependencies (getPiletsInfo declaring_host))
               (allDependencies declaring_host) [])) ''bar'' = Some (Value ''latest'') \<and>
   (\<exists>emitted.
      fst (piletPatch example_tooling ''my-pilet'' [] declaring_host None []) = emitted \<and>
      count_list emitted (LogWarn (unresolved_warning ''bar'')) = 1) \<and>
   get (patch_devDependencies
          (snd (piletPatch example_tooling ''my-pilet'' [] declaring_host None []))) ''bar''
     = Some (Value ''latest'')"
proof -
  have wf: "wf_object (devDependencies (getPiletsInfo declaring_host))"
    by (simp add: wf_object_def getPiletsInfo_def declaring_host_def no_pilets_def)
  have wfd: "wf_object (or_empty (pkg_dependencies declaring_host))"
    by (simp add: wf_object_def declaring_host_def)
  have wfdd: "wf_object (or_empty (pkg_devDependencies declaring_host))"
    by (simp add: wf_object_def declaring_host_def)
  have decl: "get (devDependencies (getPiletsInfo declaring_host)) ''bar'' = Some Sentinel"
    by (simp add: get_def getPiletsInfo_def declaring_host_def no_pilets_def)
  have none: "get (or_empty (pkg_devDependencies declaring_host)) ''bar'' = None"
    "get (or_empty (pkg_dependencies declaring_host)) ''bar'' = None"
    by (simp_all add: get_def declaring_host_def)
  have own: "Sentinel = Sentinel \<and>
      get (or_empty (pkg_devDependencies declaring_host)) ''bar'' = None \<and>
      get (or_empty (pkg_dependencies declaring_host)) ''bar'' = None
      \<longrightarrow> ''bar'' \<notin> set object_prototype"
    by (simp add: object_prototype_def)
  have ext: "externals (getPiletsInfo declaring_host) = []"
    by (simp add: getPiletsInfo_def declaring_host_def no_pilets_def)
  show ?thesis
    using declared_version_resolution [OF wf wfd wfdd decl own,
        of "[]" example_tooling "''my-pilet''" "[]" None]
    by (simp add: Let_def none ext decl)
qed

text \<open>The counterexample to C2 as it was stated: \<^verbatim>\<open>foo\<close> is declared with the literal
  string \<^verbatim>\<open>""\<close>, which package managers read as any version. The literal is not used:
  the name is reconciled to \<^verbatim>\<open>latest\<close> and a warning is logged for it.\<close>

theorem empty_literal_not_verbatim:
  "get (devDependencies (getPiletsInfo declaring_host)) ''foo'' = Some (Literal []) \<and>
   getDependencyVersion ''foo'' (devDependencies (getPiletsInfo declaring_host))
       (allDependencies declaring_host) [] =
     ([LogWarn (unresolved_warning ''foo'')], Value ''latest'') \<and>
   get (patch_devDependencies
          (snd (piletPatch example_tooling ''my-pilet'' [] declaring_host None []))) ''foo''
     = Some (Value ''latest'')"
proof -
  have decl: "get (devDependencies (getPiletsInfo declaring_host)) ''foo'' = Some (Literal [])"
    by (simp add: get_def getPiletsInfo_def declaring_host_def no_pilets_def)
  have gdv: "getDependencyVersion ''foo'' (devDependencies (getPiletsInfo declaring_host))
       (allDependencies declaring_host) [] =
     ([LogWarn (unresolved_warning ''foo'')], Value ''latest'')"
    by (simp add: getDependencyVersion_def Let_def read_own [OF decl])
  have final: "get (patch_devDependencies
          (snd (piletPatch example_tooling ''my-pilet'' [] declaring_host None []))) ''foo''
     = Some (Value ''latest'')"
    by (simp add: declaring_host_patch get_def)
  show ?thesis
    using decl gdv final by simp
qed

text \<open>What the amended claims leave out: a name of a member of \<^verbatim>\<open>Object.prototype\<close>,
  declared \<^verbatim>\<open>true\<close> or listed as an external, with no entry in the host. The read finds
  the inherited function, which is truthy: it becomes the specifier, and nothing is
  logged.\<close>

lemma inherited_member_selected:
  "getDependencyVersion ''constructor'' [(''constructor'', Sentinel)] [] [] =
     ([], Builtin ''constructor'') \<and>
   externalsLayer [''constructor''] [] = [(''constructor'', Builtin ''constructor'')]"
  by (simp add: getDependencyVersion_def externalsLayer_def read_def get_def
      object_prototype_def Let_def)

text \<open>
  C3, as amended. For every name among the host's \<^verbatim>\<open>pilets.externals\<close> that is neither
  the given name nor \<^verbatim>\<open>piral-cli\<close>, the reconciled development dependencies map the name
  to the entry of the host's own dependencies (the development dependencies of the host
  are not read) when that entry is there and not empty, and to \<^verbatim>\<open>latest\<close> otherwise; the
  peer dependencies map it to the wildcard. Where the host has no entry, this is said of
  the names that are not names of members of \<^verbatim>\<open>Object.prototype\<close>.
\<close>

theorem externals_from_host_dependencies:
  assumes "n \<in> set (externals (getPiletsInfo piralInfo))"
    and "n \<noteq> name" and "n \<noteq> ''piral-cli''"
    and own: "get (or_empty (pkg_dependencies piralInfo)) n = None
              \<longrightarrow> n \<notin> set object_prototype"
  shows
    "get (patch_devDependencies (snd (piletPatch T name version piralInfo language log))) n =
       Some (Value (case get (or_empty (pkg_dependencies piralInfo)) n of
                      Some v \<Rightarrow> if v \<noteq> [] then v else ''latest''
                    | None \<Rightarrow> ''latest'')) \<and>
     get (patch_peerDependencies (snd (piletPatch T name version piralInfo language log))) n =
       Some ''*''"
proof (cases "get (or_empty (pkg_dependencies piralInfo)) n")
  case None
  with own have "read (or_empty (pkg_dependencies piralInfo)) n = None"
    by (simp add: read_absent)
  with None assms(1-3) show ?thesis
    by (simp add: get_patch_devDependencies patch_peerDependencies_eq get_peerDependencies)
next
  case (Some v)
  then have "read (or_empty (pkg_dependencies piralInfo)) n = Some (Value v)"
    by (rule read_own)
  with Some assms(1-3) show ?thesis
    by (simp add: get_patch_devDependencies patch_peerDependencies_eq get_peerDependencies)
qed

text \<open>The witness is the end-to-end example of the specification.\<close>

theorem externals_from_host_dependencies_witness:
  "get (patch_devDependencies
          (snd (piletPatch example_tooling ''my-pilet'' ''1.0.0'' example_host None [])))
      ''shared-lib'' = Some (Value ''2.1.0'') \<and>
   get (patch_peerDependencies
          (snd (piletPatch example_tooling ''my-pilet'' ''1.0.0'' example_host None [])))
      ''shared-lib'' = Some ''*''"
proof -
  have ext: "''shared-lib'' \<in> set (externals (getPiletsInfo example_host))"
    by (simp add: getPiletsInfo_def example_host_def no_pilets_def)
  have dep: "get (or_empty (pkg_dependencies example_host)) ''shared-lib'' = Some ''2.1.0''"
    by (simp add: get_def example_host_def)
  have own: "get (or_empty (pkg_dependencies example_host)) ''shared-lib'' = None
      \<longrightarrow> ''shared-lib'' \<notin> set object_prototype"
    by (simp add: dep)
  have ne: "''shared-lib'' \<noteq> ''my-pilet''" "''shared-lib'' \<noteq> ''piral-cli''"
    by simp_all
  show ?thesis
    using externals_from_host_dependencies [OF ext ne own, of example_tooling
        "''1.0.0''" None "[]"]
    by (simp add: dep)
qed

text \<open>The counterexample to C3 as it was stated: both names are externals of the host.
  \<^verbatim>\<open>shared-lib\<close> has an entry among the dependencies of the host, the empty string, and
  is reconciled to \<^verbatim>\<open>latest\<close>; \<^verbatim>\<open>piral-cli\<close> has the entry \<^verbatim>\<open>0.9.0\<close> and is reconciled
  to the version of the CLI.\<close>

theorem externals_overridden_or_empty:
  "set (externals (getPiletsInfo overriding_host)) = {''shared-lib'', ''piral-cli''} \<and>
   get (or_empty (pkg_dependencies overriding_host)) ''shared-lib'' = Some [] \<and>
   get (patch_devDependencies
          (snd (piletPatch example_tooling ''my-pilet'' ''1.0.0'' overriding_host None [])))
      ''shared-lib'' = Some (Value ''latest'') \<and>
   get (or_empty (pkg_dependencies overriding_host)) ''piral-cli'' = Some ''0.9.0'' \<and>
   get (patch_devDependencies
          (snd (piletPatch example_tooling ''my-pilet'' ''1.0.0'' overriding_host None [])))
      ''piral-cli'' = Some (Value ''^0.10.9'')"
proof -
  have ext: "externals (getPiletsInfo overriding_host) = [''shared-lib'', ''piral-cli'']"
    by (simp add: getPiletsInfo_def overriding_host_def no_pilets_def)
  have dep: "or_empty (pkg_dependencies overriding_host) =
      [(''shared-lib'', []), (''piral-cli'', ''0.9.0'')]"
    by (simp add: overriding_host_def)
  have cli: "cliVersion example_tooling = ''0.10.9''"
    by (simp add: example_tooling_def)
  have rd: "read [(''shared-lib'', []), (''piral-cli'', ''0.9.0'')] ''shared-lib'' =
      Some (Value [])"
    by (simp add: read_def get_def)
  show ?thesis
    by (simp add: get_patch_devDependencies ext dep cli rd) (auto simp: get_def)
qed

text \<open>
  C4, as amended. Whatever the three layers before assign: the reconciled development
  dependencies map \<^verbatim>\<open>piral-cli\<close> to the caret range of the version of the CLI; and they
  map the given name, when it is not \<^verbatim>\<open>piral-cli\<close>, to the given version when that is not
  empty and else to the version of the host manifest (printed \<^verbatim>\<open>undefined\<close> when the
  manifest has none).
\<close>

theorem forced_final_entries:
  "get (patch_devDependencies (snd (piletPatch T name version piralInfo language log)))
      ''piral-cli'' = Some (Value (''^'' @ cliVersion T)) \<and>
   (name \<noteq> ''piral-cli'' \<longrightarrow>
    get (patch_devDependencies (snd (piletPatch T name version piralInfo language log))) name =
      Some (Value (if version \<noteq> [] then version
                   else case pkg_version piralInfo of Some v \<Rightarrow> v | None \<Rightarrow> ''undefined'')))"
  by (simp add: get_patch_devDependencies version_or_def split: option.splits)

theorem forced_final_entries_witness:
  "get (patch_devDependencies
          (snd (piletPatch example_tooling ''my-pilet'' ''1.0.0'' example_host None [])))
      ''piral-cli'' = Some (Value ''^0.10.9'') \<and>
   get (patch_devDependencies
          (snd (piletPatch example_tooling ''my-pilet'' ''1.0.0'' example_host None [])))
      ''my-pilet'' = Some (Value ''1.0.0'')"
  using forced_final_entries [of example_tooling "''my-pilet''" "''1.0.0''" example_host None "[]"]
  by (simp add: example_tooling_def)

text \<open>The counterexample to C4 as it was stated. Given the empty version, the name is
  mapped to the version of the host, \<^verbatim>\<open>3.0.0\<close>; and given the name \<^verbatim>\<open>piral-cli\<close> with the
  version \<^verbatim>\<open>1.0.0\<close>, the name is mapped to the version of the CLI.\<close>

theorem forced_entries_counterexample:
  "get (patch_devDependencies
          (snd (piletPatch example_tooling ''my-pilet'' [] declaring_host None [])))
      ''my-pilet'' = Some (Value ''3.0.0'') \<and>
   get (patch_devDependencies
          (snd (piletPatch example_tooling ''piral-cli'' ''1.0.0'' overriding_host None [])))
      ''piral-cli'' = Some (Value ''^0.10.9'')"
  by (simp add: declaring_host_patch overriding_host_patch get_def)

text \<open>
  C5. The reconciled peer dependencies map every name among the host's
  \<^verbatim>\<open>pilets.externals\<close> to the wildcard, each of the nine shared runtime libraries to the
  wildcard, and the given name, which is recorded as the name of the host in the
  \<^verbatim>\<open>piral\<close> section, to the wildcard.
\<close>

theorem peerDependencies_wildcards:
  "(\<forall>n \<in> set (externals (getPiletsInfo piralInfo)).
      get (patch_peerDependencies (snd (piletPatch T name version piralInfo language log))) n
        = Some ''*'') \<and>
   (\<forall>n \<in> set [''@dbeining/react-atom'', ''@libre/atom'', ''history'', ''react'', ''react-dom'',
               ''react-router'', ''react-router-dom'', ''tslib'', ''path-to-regexp''].
      get (patch_peerDependencies (snd (piletPatch T name version piralInfo language log))) n
        = Some ''*'') \<and>
   get (patch_peerDependencies (snd (piletPatch T name version piralInfo language log))) name
     = Some ''*'' \<and>
   piral_name (piral (snd (piletPatch T name version piralInfo language log))) = name"
  unfolding patch_peerDependencies_eq get_peerDependencies
  by (simp add: shared_peers_def piletPatch_def Let_def split_beta)

theorem peerDependencies_wildcards_witness:
  "get (patch_peerDependencies
          (snd (piletPatch example_tooling ''my-pilet'' ''1.0.0'' example_host None [])))
      ''shared-lib'' = Some ''*'' \<and>
   get (patch_peerDependencies
          (snd (piletPatch example_tooling ''my-pilet'' ''1.0.0'' example_host None [])))
      ''react-router'' = Some ''*'' \<and>
   get (patch_peerDependencies
          (snd (piletPatch example_tooling ''my-pilet'' ''1.0.0'' example_host None [])))
      ''my-pilet'' = Some ''*''"
proof -
  have ext: "''shared-lib'' \<in> set (externals (getPiletsInfo example_host))"
    by (simp add: getPiletsInfo_def example_host_def no_pilets_def)
  show ?thesis
    using peerDependencies_wildcards
      [of example_host example_tooling "''my-pilet''" "''1.0.0''" None "[]"] ext
    by simp
qed

text \<open>A spread whose source agrees with the target changes nothing; so merging the
  same patch a second time changes nothing.\<close>

lemma spread_fixed: "\<forall>(k, v) \<in> set s. map_of t k = Some v \<Longrightarrow> spread t s = t"
  unfolding spread_def
  by (induction s arbitrary: t) (auto simp: update_triv)

lemma spread_twice: "wf_object s \<Longrightarrow> spread (spread t s) s = spread t s"
proof (rule spread_fixed, clarify)
  fix k v
  assume wf: "wf_object s" and mem: "(k, v) \<in> set s"
  then have "get s k = Some v" by (simp add: get_def wf_object_def)
  with get_spread_wf [OF wf, of t k] show "map_of (spread t s) k = Some v"
    by (simp add: get_def)
qed

lemma wf_patch_fields:
  "wf_object
     [(''piral'', Section a), (''devDependencies'', Dependencies b),
      (''peerDependencies'', Strings c), (''scripts'', Strings d)]"
  by (simp add: wf_object_def)

lemma merge_patch_twice: "merge_patch (merge_patch doc p) p = merge_patch doc p"
  unfolding merge_patch_def by (rule spread_twice [OF wf_patch_fields])

lemma get_merge_patch:
  "get (merge_patch doc p) k =
    (if k = ''piral'' then Some (Section (piral p))
     else if k = ''devDependencies'' then Some (Dependencies (patch_devDependencies p))
     else if k = ''peerDependencies'' then Some (Strings (patch_peerDependencies p))
     else if k = ''scripts'' then Some (Strings (patch_scripts p))
     else get doc k)"
  unfolding merge_patch_def get_spread_wf [OF wf_patch_fields]
  by (simp add: get_def)

lemma store_updateExistingJson_twice:
  "store_updateExistingJson (store_updateExistingJson st dir file p) dir file p =
     store_updateExistingJson st dir file p"
proof (cases "map_of st (dir, file)")
  case None
  then show ?thesis by (simp add: store_updateExistingJson_def)
next
  case (Some doc)
  then show ?thesis
    by (simp add: store_updateExistingJson_def update_conv' merge_patch_twice)
qed

lemma patchPiletPackage_run:
  "patchPiletPackage T u (f, lg) root name version piralInfo language =
      ((u f root ''package.json'' (snd (piletPatch T name version piralInfo language lg)),
        fst (piletPatch T name version piralInfo language lg)),
       files (getPiletsInfo piralInfo))"
proof -
  have "files (piral_info (piral (snd (piletPatch T name version piralInfo language lg)))) =
      files (getPiletsInfo piralInfo)"
    by (simp add: piletPatch_def Let_def split_beta info.truncate_def)
  then show ?thesis
    by (simp add: patchPiletPackage_def split_beta)
qed

text \<open>
  C9. Running the reconciliation twice in a row with the same host manifest, name,
  version and language, the second run starting from the log and the stored manifest
  that the first one left: the second run hands \<^verbatim>\<open>updateExistingJson\<close> the patch of
  the first, whatever \<^verbatim>\<open>updateExistingJson\<close> does with it; and with the merge as the
  specification describes it, the store after the second run is the store after the
  first, the manifest of the pilet then holding the reconciled \<^verbatim>\<open>devDependencies\<close> and
  \<^verbatim>\<open>peerDependencies\<close> blocks, key for key in their order, beside its other fields as
  they were.
\<close>

theorem reconciliation_idempotent:
  "(let p = snd (piletPatch T name version piralInfo language log);
        run1 = patchPiletPackage T store_updateExistingJson (st, log) root name version
                 piralInfo language;
        run2 = patchPiletPackage T store_updateExistingJson (fst run1) root name version
                 piralInfo language;
        any1 = patchPiletPackage T u (fs, log) root name version piralInfo language;
        any2 = patchPiletPackage T u (fst any1) root name version piralInfo language
    in fst (fst run2) = fst (fst run1) \<and>
       snd run2 = snd run1 \<and>
       (\<forall>doc. map_of st (root, ''package.json'') = Some doc \<longrightarrow>
          (\<exists>doc'. map_of (fst (fst run2)) (root, ''package.json'') = Some doc' \<and>
             get doc' ''devDependencies'' = Some (Dependencies (patch_devDependencies p)) \<and>
             get doc' ''peerDependencies'' = Some (Strings (patch_peerDependencies p)) \<and>
             (\<forall>k. k \<notin> {''piral'', ''devDependencies'', ''peerDependencies'', ''scripts''} \<longrightarrow>
                get doc' k = get doc k))) \<and>
       fst (fst any1) = u fs root ''package.json'' p \<and>
       fst (fst any2) = u (u fs root ''package.json'' p) root ''package.json'' p)"
proof -
  let ?p = "snd (piletPatch T name version piralInfo language log)"
  let ?lg = "fst (piletPatch T name version piralInfo language log)"
  have same: "snd (piletPatch T name version piralInfo language ?lg) = ?p"
    by (rule snd_piletPatch_log)
  have stored: "\<exists>doc'. map_of (store_updateExistingJson st root ''package.json'' ?p)
        (root, ''package.json'') = Some doc' \<and>
      get doc' ''devDependencies'' = Some (Dependencies (patch_devDependencies ?p)) \<and>
      get doc' ''peerDependencies'' = Some (Strings (patch_peerDependencies ?p)) \<and>
      (\<forall>k. k \<notin> {''piral'', ''devDependencies'', ''peerDependencies'', ''scripts''} \<longrightarrow>
         get doc' k = get doc k)"
    if "map_of st (root, ''package.json'') = Some doc" for doc
    using that
    by (simp add: store_updateExistingJson_def update_conv' get_merge_patch)
  show ?thesis
    unfolding Let_def patchPiletPackage_run fst_conv snd_conv same
      store_updateExistingJson_twice
    using stored by simp
qed

text \<open>The witness: the manifest of the pilet, with a dependency and a licence of its
  own, after one run and after two.\<close>

theorem reconciliation_idempotent_witness:
  "(\<exists>doc'.
      map_of (fst (fst (patchPiletPackage example_tooling store_updateExistingJson
                          (fst (patchPiletPackage example_tooling store_updateExistingJson
                                  (example_store, []) ''/w'' ''my-pilet'' ''1.0.0''
                                  example_host None))
                          ''/w'' ''my-pilet'' ''1.0.0'' example_host None)))
        (''/w'', ''package.json'') = Some doc' \<and>
      get doc' ''devDependencies'' =
        Some (Dependencies [(''shared-lib'', Value ''2.1.0''), (''my-pilet'', Value ''1.0.0''),
                            (''piral-cli'', Value ''^0.10.9'')]) \<and>
      get doc' ''license'' = Some (Other ''MIT'')) \<and>
   fst (fst (patchPiletPackage example_tooling store_updateExistingJson
               (fst (patchPiletPackage example_tooling store_updateExistingJson
                       (example_store, []) ''/w'' ''my-pilet'' ''1.0.0'' example_host None))
               ''/w'' ''my-pilet'' ''1.0.0'' example_host None)) =
     fst (fst (patchPiletPackage example_tooling store_updateExistingJson
                 (example_store, []) ''/w'' ''my-pilet'' ''1.0.0'' example_host None))"
proof -
  let ?run1 = "patchPiletPackage example_tooling store_updateExistingJson
                 (example_store, []) ''/w'' ''my-pilet'' ''1.0.0'' example_host None"
  let ?run2 = "patchPiletPackage example_tooling store_updateExistingJson
                 (fst ?run1) ''/w'' ''my-pilet'' ''1.0.0'' example_host None"
  let ?doc = "[(''name'', Other ''my-pilet''),
            (''devDependencies'', Dependencies [(''left-pad'', Value ''1.3.0'')]),
            (''license'', Other ''MIT'')]"
  have doc: "map_of example_store (''/w'', ''package.json'') = Some ?doc"
    by (simp add: example_store_def)
  have lic: "get ?doc ''license'' = Some (Other ''MIT'')"
    by (simp add: get_def)
  note run = reconciliation_idempotent [of example_tooling "''my-pilet''" "''1.0.0''"
      example_host None "[]" example_store "''/w''" store_updateExistingJson example_store,
      unfolded Let_def]
  from run have same: "fst (fst ?run2) = fst (fst ?run1)"
    by (rule conjunct1)
  from run doc obtain doc' where stored:
    "map_of (fst (fst ?run2)) (''/w'', ''package.json'') = Some doc'"
    "get doc' ''devDependencies'' =
       Some (Dependencies (patch_devDependencies
         (snd (piletPatch example_tooling ''my-pilet'' ''1.0.0'' example_host None []))))"
    "\<forall>k. k \<notin> {''piral'', ''devDependencies'', ''peerDependencies'', ''scripts''} \<longrightarrow>
       get doc' k = get ?doc k"
    by blast
  from stored(3) have "get doc' ''license'' = get ?doc ''license''"
    by simp
  with lic have kept: "get doc' ''license'' = Some (Other ''MIT'')"
    by simp
  from stored(1) stored(2) kept same show ?thesis
    unfolding example_host_patch by blast
qed

section \<open>Claims about the host locator\<close>

text \<open>
  C8. \<^verbatim>\<open>retrievePiralRoot(baseDir, entry)\<close>: when \<^verbatim>\<open>join(baseDir, entry)\<close> has the extension
  \<^verbatim>\<open>.html\<close>, that path is returned, nothing is logged and the file system is not
  accessed. Otherwise the manifest is sought at the hint (the hint itself when it is
  named \<^verbatim>\<open>package.json\<close>, else \<^verbatim>\<open>package.json\<close> inside it); the error
  \<^verbatim>\<open>Invalid Piral instance.\<close> is thrown exactly when that file does not exist or its
  \<^verbatim>\<open>app\<close> field is missing or empty, each time after one failure message has been
  logged; and when the file exists with an \<^verbatim>\<open>app\<close> that is not empty, the directory of
  the manifest joined with \<^verbatim>\<open>app\<close> is returned and nothing is logged.
\<close>

theorem retrievePiralRoot_cases:
  "(extname P (join P [baseDir, entry]) = ''.html'' \<longrightarrow>
      retrievePiralRoot P IO fs log baseDir entry = (log, [], Inr (join P [baseDir, entry]))) \<and>
   (extname P (join P [baseDir, entry]) \<noteq> ''.html'' \<longrightarrow>
      (let rootDir = join P [baseDir, entry];
           packageName = (if basename P rootDir = ''package.json'' then rootDir
                          else join P [rootDir, ''package.json'']);
           missing = (\<not> checkExists IO fs packageName);
           no_app = (\<exists>pkg. require IO fs packageName = Some pkg \<and>
                       (pkg_app pkg = None \<or> pkg_app pkg = Some []));
           outcome = retrievePiralRoot P IO fs log baseDir entry
       in (snd (snd outcome) = Inl (Error ''Invalid Piral instance.'') \<longleftrightarrow>
             missing \<or> no_app) \<and>
          (missing \<longrightarrow> fst outcome = log @ [LogFail missing_package_json [rootDir]]) \<and>
          (\<not> missing \<and> no_app \<longrightarrow>
             fst outcome = log @ [LogFail missing_field [''app'', ''package.json'']]) \<and>
          (\<forall>pkg app. \<not> missing \<and> require IO fs packageName = Some pkg \<and>
               pkg_app pkg = Some app \<and> app \<noteq> [] \<longrightarrow>
             outcome = (log, [CheckExists packageName, Require packageName],
                        Inr (join P [dirname P packageName, app])))))"
proof -
  have tr: "truthy a \<longleftrightarrow> \<not> (a = None \<or> a = Some [])" for a
    by (cases a) simp_all
  show ?thesis
    by (auto simp: retrievePiralRoot_def Let_def tr split: option.splits)
qed

text \<open>The witness: an entry page is returned as it is; a host directory with a manifest
  that names its \<^verbatim>\<open>app\<close> gives the path of the application; a directory without a
  manifest is refused.\<close>

theorem retrievePiralRoot_cases_witness:
  "retrievePiralRoot posix (tree_io example_manifests) example_tree [] ''/w'' ''index.html'' =
     ([], [], Inr ''/w/index.html'') \<and>
   retrievePiralRoot posix (tree_io example_manifests) example_tree [] ''/w'' ''host'' =
     ([], [CheckExists ''/w/host/package.json'', Require ''/w/host/package.json''],
      Inr ''/w/host/src/index.html'') \<and>
   snd (snd (retrievePiralRoot posix (tree_io example_manifests) example_tree [] ''/w'' ''out''))
     = Inl (Error ''Invalid Piral instance.'')"
proof -
  have join1: "join posix [''/w'', ''index.html''] = ''/w/index.html''"
    "join posix [''/w'', ''host''] = ''/w/host''"
    "join posix [''/w'', ''out''] = ''/w/out''"
    "join posix [''/w/host'', ''package.json''] = ''/w/host/package.json''"
    "join posix [''/w/out'', ''package.json''] = ''/w/out/package.json''"
    by (simp_all add: posix_def)
  have ext: "extname posix ''/w/index.html'' = ''.html''"
    "extname posix ''/w/host'' = []" "extname posix ''/w/out'' = []"
    by (simp_all add: posix_def posix_extname_def posix_basename_def Let_def)
  have base: "basename posix ''/w/host'' = ''host''" "basename posix ''/w/out'' = ''out''"
    by (simp_all add: posix_def posix_basename_def)
  have dir: "join posix [dirname posix ''/w/host/package.json'', ''src/index.html''] =
      ''/w/host/src/index.html''"
    by (simp add: posix_def posix_dirname_def)
  have ex: "checkExists (tree_io example_manifests) example_tree ''/w/host/package.json''"
    "\<not> checkExists (tree_io example_manifests) example_tree ''/w/out/package.json''"
    by (simp_all add: tree_io_def tree_exists_def tree_isDirectory_def example_tree_def below_def)
  have req: "require (tree_io example_manifests) example_tree ''/w/host/package.json'' =
      Some example_pilet_host"
    using ex(1) by (simp add: tree_io_def example_manifests_def)
  have app: "pkg_app example_pilet_host = Some ''src/index.html''"
    by (simp add: example_pilet_host_def)
  show ?thesis
    using retrievePiralRoot_cases [of posix "''/w''" "''index.html''"
        "tree_io example_manifests" example_tree "[]"]
      retrievePiralRoot_cases [of posix "''/w''" "''host''"
        "tree_io example_manifests" example_tree "[]"]
      retrievePiralRoot_cases [of posix "''/w''" "''out''"
        "tree_io example_manifests" example_tree "[]"]
    by (simp add: join1 ext base dir ex req app Let_def)
qed

section \<open>Claims about the module loader\<close>

text \<open>
  C1. For every metadata object and configuration, the promise of \<^verbatim>\<open>loader\<close> is
  fulfilled, never rejected. When the import of the entry URL is rejected, the error is
  logged with the URL and the pilet is a copy of the metadata object, so it has every
  field of it; when the import is fulfilled, nothing is logged and a lookup in the pilet
  finds the export of the module under that key if there is one and the field of the
  metadata otherwise. (The metadata is the object as \<^verbatim>\<open>setBasePath\<close> left it, and the
  registry the one after the registration of the dependencies.)
\<close>

theorem loader_never_rejects:
  assumes base: "setBasePath M meta (prop_of meta ''link'') = (meta', link)"
    and reg: "sys' = (case prop_of meta ''dependencies'' of
                        JObj d \<Rightarrow> registerDependencies M d sys | _ \<Rightarrow> sys)"
  shows
    "\<exists>console' pilet.
       loader M sys console meta config = (console', Inr pilet) \<and>
       (case system_import M sys' link of
          Inl e \<Rightarrow>
            console' = console @ [(''Failed to load SystemJS module'', link, e)] \<and>
            (wf_object meta' \<longrightarrow>
               pilet = meta' \<and> (\<forall>k \<in> set (keys meta'). get pilet k = get meta' k))
        | Inr app \<Rightarrow>
            console' = console \<and>
            (wf_object meta' \<and> wf_object app \<longrightarrow>
               (\<forall>k. get pilet k =
                  (case get app k of Some v \<Rightarrow> Some v | None \<Rightarrow> get meta' k))))"
proof (cases "system_import M sys' link")
  case (Inl e)
  then show ?thesis
    using base reg
    by (simp add: loader_def loadSystemModule_def then_both_def then_one_def Let_def
        spread_Nil_wf spread_empty)
next
  case (Inr app)
  then show ?thesis
    using base reg
    by (simp add: loader_def loadSystemModule_def then_both_def then_one_def Let_def
        spread_Nil_wf get_spread_wf)
qed

text \<open>The witness: one metadata object, loaded through a registry whose import of the
  entry is rejected and through one whose import is fulfilled with a module that
  exports \<^verbatim>\<open>setup\<close> and its own \<^verbatim>\<open>name\<close>.\<close>

theorem loader_never_rejects_witness:
  "loader (example_system False) [] [] example_meta () =
     ([(''Failed to load SystemJS module'', ''https://cdn/pilet/index.js'', ''404'')],
      Inr example_meta) \<and>
   (\<exists>pilet. loader (example_system True) [] [] example_meta () = ([], Inr pilet) \<and>
      get pilet ''name'' = Some (JStr ''from-module'') \<and>
      get pilet ''setup'' = Some (JFun 0) \<and>
      get pilet ''version'' = Some (JStr ''1.0.0''))"
proof -
  have wf: "wf_object example_meta"
    by (simp add: wf_object_def example_meta_def)
  have link: "prop_of example_meta ''link'' = JStr ''https://cdn/pilet/index.js''"
    by (simp add: prop_of_def get_def example_meta_def)
  have base: "setBasePath (example_system b) example_meta (prop_of example_meta ''link'') =
      (example_meta, ''https://cdn/pilet/index.js'')" for b
    by (simp add: link example_system_def)
  have imp: "system_import (example_system False) s ''https://cdn/pilet/index.js'' = Inl ''404''"
    "system_import (example_system True) s ''https://cdn/pilet/index.js'' = Inr example_module"
    for s
    by (simp_all add: example_system_def)
  have wfm: "wf_object example_module"
    by (simp add: wf_object_def example_module_def)
  have gm: "get example_module ''name'' = Some (JStr ''from-module'')"
    "get example_module ''setup'' = Some (JFun 0)"
    "get example_module ''version'' = None"
    "get example_meta ''version'' = Some (JStr ''1.0.0'')"
    by (simp_all add: get_def example_module_def example_meta_def)
  show ?thesis
    using loader_never_rejects [OF base refl, of False "[]" "[]" "()"]
      loader_never_rejects [OF base refl, of True "[]" "[]" "()"]
    by (auto simp: imp wf wfm gm)
qed

section \<open>Claims about the file set resolver\<close>

text \<open>
  C10. An entry of the \<^verbatim>\<open>files\<close> list that is a plain string \<open>f\<close> is resolved, by
  \<^verbatim>\<open>getFileStats\<close> and by \<^verbatim>\<open>copyPiralFiles\<close>, exactly as the location with source \<open>f\<close>,
  target \<open>f\<close> and \<^verbatim>\<open>deep: false\<close>: replacing every string of the list by that location
  changes neither the statistics nor the file system and the copies made.
\<close>

theorem string_entry_as_location:
  "getFilesOf P IO fs root name (FileName f) =
     getFilesOf P IO fs root name
       (FileLocation \<lparr>loc_from = f, loc_to = f, loc_deep = Some False\<rparr>) \<and>
   getFileStats P IO fs root name (map asLocation entries) =
     getFileStats P IO fs root name entries \<and>
   copyPiralFiles P IO root name (map asLocation entries) forceOverwrite originalFiles fs =
     copyPiralFiles P IO root name entries forceOverwrite originalFiles fs"
proof -
  have one: "getFilesOf P IO fs' root name (asLocation e) = getFilesOf P IO fs' root name e"
    for fs' e
    by (cases e) (simp_all add: getFilesOf_def)
  have stats: "getFileStats P IO fs root name (map asLocation entries) =
      getFileStats P IO fs root name entries"
    by (simp add: getFileStats_def one comp_def)
  have copies: "copyPiralFiles P IO root name (map asLocation entries) forceOverwrite
      originalFiles fs = copyPiralFiles P IO root name entries forceOverwrite originalFiles fs"
    by (induction entries arbitrary: fs) (simp_all add: one)
  show ?thesis
    using stats copies by (simp add: getFilesOf_def)
qed

text \<open>The resolution of a location, case by case.\<close>

lemma getFilesOf_location:
  "getFilesOf P IO fs root name (FileLocation l) =
    (if checkIsDirectory IO fs (join P [getPiralPath P root name, loc_from l]) then
       map (\<lambda>f. \<lparr>sourcePath = f,
                  targetPath = resolve P [resolve P [root, loc_to l],
                     relative P (join P [getPiralPath P root name, loc_from l]) f]\<rparr>)
         (matchFiles IO fs (join P [getPiralPath P root name, loc_from l])
            (if loc_deep l = Some True then ''**/*'' else ''*''))
     else [\<lparr>sourcePath = join P [getPiralPath P root name, loc_from l],
            targetPath = resolve P [root, loc_to l]\<rparr>])"
proof -
  have deep: "(case loc_deep l of None \<Rightarrow> False | Some b \<Rightarrow> b) = (loc_deep l = Some True)"
    by (cases "loc_deep l") simp_all
  show ?thesis
    by (simp add: getFilesOf_def Let_def deep)
qed

text \<open>
  C7. When the source of a location is a directory, the resolver asks for the files
  that match the recursive pattern if \<^verbatim>\<open>deep\<close> is true and for those that match the
  pattern of the direct children otherwise, and pairs every file it is given with the
  target directory resolved with the path of the file relative to the source
  directory; a source that is not a directory gives exactly one pair, source and
  target. With \<^verbatim>\<open>matchFiles\<close> as the specification describes it, the sources resolved
  are all files below the directory if \<^verbatim>\<open>deep\<close> is true and the files directly in it
  otherwise.
\<close>

theorem getFilesOf_directory_expansion:
  "(checkIsDirectory IO fs (join P [getPiralPath P root name, loc_from l]) \<longrightarrow>
      getFilesOf P IO fs root name (FileLocation l) =
        map (\<lambda>f. \<lparr>sourcePath = f,
                   targetPath = resolve P [resolve P [root, loc_to l],
                      relative P (join P [getPiralPath P root name, loc_from l]) f]\<rparr>)
          (matchFiles IO fs (join P [getPiralPath P root name, loc_from l])
             (if loc_deep l = Some True then ''**/*'' else ''*''))) \<and>
   (\<not> checkIsDirectory IO fs (join P [getPiralPath P root name, loc_from l]) \<longrightarrow>
      getFilesOf P IO fs root name (FileLocation l) =
        [\<lparr>sourcePath = join P [getPiralPath P root name, loc_from l],
          targetPath = resolve P [root, loc_to l]\<rparr>]) \<and>
   (tree_isDirectory tree (join P [getPiralPath P root name, loc_from l]) \<longrightarrow>
      map sourcePath (getFilesOf P (tree_io manifests) tree root name (FileLocation l)) =
        (if loc_deep l = Some True
         then filter (below (join P [getPiralPath P root name, loc_from l])) (map fst tree)
         else filter (child_of (join P [getPiralPath P root name, loc_from l])) (map fst tree)))"
  by (simp add: getFilesOf_location tree_io_def tree_matchFiles_def comp_def)

text \<open>The witness is the example of the specification: a template directory with
  \<^verbatim>\<open>a.txt\<close> and \<^verbatim>\<open>sub/b.txt\<close>, resolved shallowly, deeply, and a single file.\<close>

theorem getFilesOf_directory_expansion_witness:
  "getFilesOf posix (tree_io []) example_tree ''/w'' ''app''
     (FileLocation \<lparr>loc_from = ''tpl'', loc_to = ''out'', loc_deep = Some False\<rparr>) =
     [\<lparr>sourcePath = ''/w/node_modules/app/tpl/a.txt'', targetPath = ''/w/out/a.txt''\<rparr>] \<and>
   getFilesOf posix (tree_io []) example_tree ''/w'' ''app''
     (FileLocation \<lparr>loc_from = ''tpl'', loc_to = ''out'', loc_deep = Some True\<rparr>) =
     [\<lparr>sourcePath = ''/w/node_modules/app/tpl/a.txt'', targetPath = ''/w/out/a.txt''\<rparr>,
      \<lparr>sourcePath = ''/w/node_modules/app/tpl/sub/b.txt'',
        targetPath = ''/w/out/sub/b.txt''\<rparr>] \<and>
   getFilesOf posix (tree_io []) example_tree ''/w'' ''app''
     (FileLocation \<lparr>loc_from = ''one.txt'', loc_to = ''one.txt'', loc_deep = None\<rparr>) =
     [\<lparr>sourcePath = ''/w/node_modules/app/one.txt'', targetPath = ''/w/one.txt''\<rparr>]"
proof -
  have src: "join posix [getPiralPath posix ''/w'' ''app'', ''tpl''] = ''/w/node_modules/app/tpl''"
    "join posix [getPiralPath posix ''/w'' ''app'', ''one.txt''] =
       ''/w/node_modules/app/one.txt''"
    by (simp_all add: posix_def getPiralPath_def posix_resolve_def)
  have tgt: "resolve posix [''/w'', ''out''] = ''/w/out''"
    "resolve posix [''/w'', ''one.txt''] = ''/w/one.txt''"
    by (simp_all add: posix_def posix_resolve_def)
  have dir: "checkIsDirectory (tree_io []) example_tree ''/w/node_modules/app/tpl''"
    "\<not> checkIsDirectory (tree_io []) example_tree ''/w/node_modules/app/one.txt''"
    by (simp_all add: tree_io_def tree_isDirectory_def example_tree_def below_def)
  have shallow: "matchFiles (tree_io []) example_tree ''/w/node_modules/app/tpl'' ''*'' =
      [''/w/node_modules/app/tpl/a.txt'']"
    by (simp add: tree_io_def tree_matchFiles_def example_tree_def child_of_def below_def)
  have deep: "matchFiles (tree_io []) example_tree ''/w/node_modules/app/tpl'' ''**/*'' =
      [''/w/node_modules/app/tpl/a.txt'', ''/w/node_modules/app/tpl/sub/b.txt'']"
    by (simp add: tree_io_def tree_matchFiles_def example_tree_def below_def)
  have rel: "resolve posix [''/w/out'',
        relative posix ''/w/node_modules/app/tpl'' ''/w/node_modules/app/tpl/a.txt''] =
      ''/w/out/a.txt''"
    "resolve posix [''/w/out'',
        relative posix ''/w/node_modules/app/tpl'' ''/w/node_modules/app/tpl/sub/b.txt''] =
      ''/w/out/sub/b.txt''"
    by (simp_all add: posix_def posix_resolve_def posix_relative_def below_def)
  show ?thesis
    using getFilesOf_directory_expansion [of "tree_io []" example_tree posix "''/w''" "''app''"
        "\<lparr>loc_from = ''tpl'', loc_to = ''out'', loc_deep = Some False\<rparr>" example_tree "[]"]
      getFilesOf_directory_expansion [of "tree_io []" example_tree posix "''/w''" "''app''"
        "\<lparr>loc_from = ''tpl'', loc_to = ''out'', loc_deep = Some True\<rparr>" example_tree "[]"]
      getFilesOf_directory_expansion [of "tree_io []" example_tree posix "''/w''" "''app''"
        "\<lparr>loc_from = ''one.txt'', loc_to = ''one.txt'', loc_deep = None\<rparr>" example_tree "[]"]
    by (simp add: src tgt dir shallow deep rel)
qed

text \<open>The inner loop copies every pair it is given, in order, each under the policy
  that the statistics select for its target; a target that exists, has no record as
  unchanged and is kept by \<^verbatim>\<open>copy\<close> under the policy of the caller is left as it is.\<close>

lemma copySubfiles_calls:
  "snd (copySubfiles IO forceOverwrite originalFiles fs subs) =
     map (\<lambda>sub. \<lparr>copy_source = sourcePath sub, copy_target = targetPath sub,
                  copy_force = (if list_ex (\<lambda>m. path m = targetPath sub \<and> \<not> changed m)
                                      originalFiles
                                then yes else forceOverwrite)\<rparr>) subs"
  by (induction subs arbitrary: fs) (simp_all add: Let_def split_beta)

lemma copySubfiles_content:
  assumes frame: "\<And>fs s t' f p. p \<noteq> t' \<Longrightarrow> content (copy IO fs s t' f) p = content fs p"
    and keep: "\<And>fs s. content fs t \<noteq> None \<Longrightarrow>
                 content (copy IO fs s t forceOverwrite) t = content fs t"
    and norec: "\<not> list_ex (\<lambda>m. path m = t \<and> \<not> changed m) originalFiles"
  shows "content fs t \<noteq> None \<Longrightarrow>
    content (fst (copySubfiles IO forceOverwrite originalFiles fs subs)) t = content fs t"
proof (induction subs arbitrary: fs)
  case Nil
  then show ?case by simp
next
  case (Cons sub subs)
  let ?force = "if list_ex (\<lambda>m. path m = targetPath sub \<and> \<not> changed m) originalFiles
                then yes else forceOverwrite"
  let ?fs' = "copy IO fs (sourcePath sub) (targetPath sub) ?force"
  have step: "content ?fs' t = content fs t"
  proof (cases "targetPath sub = t")
    case True
    with norec have "?force = forceOverwrite" by simp
    with True keep [OF Cons.prems] show ?thesis by simp
  next
    case False
    then show ?thesis by (simp add: frame)
  qed
  with Cons.prems have "content ?fs' t \<noteq> None" by simp
  from Cons.IH [OF this] step show ?case
    by (simp add: Let_def split_beta)
qed

lemma copyPiralFiles_force:
  "\<forall>c \<in> set (snd (copyPiralFiles P IO root name entries forceOverwrite originalFiles fs)).
     copy_force c = (if list_ex (\<lambda>m. path m = copy_target c \<and> \<not> changed m) originalFiles
                     then yes else forceOverwrite)"
  by (induction entries arbitrary: fs) (auto simp: Let_def split_beta copySubfiles_calls)

lemma copyPiralFiles_content:
  assumes frame: "\<And>fs s t' f p. p \<noteq> t' \<Longrightarrow> content (copy IO fs s t' f) p = content fs p"
    and keep: "\<And>fs s. content fs t \<noteq> None \<Longrightarrow>
                 content (copy IO fs s t forceOverwrite) t = content fs t"
    and norec: "\<not> list_ex (\<lambda>m. path m = t \<and> \<not> changed m) originalFiles"
  shows "content fs t \<noteq> None \<Longrightarrow>
    content (fst (copyPiralFiles P IO root name entries forceOverwrite originalFiles fs)) t =
      content fs t"
proof (induction entries arbitrary: fs)
  case Nil
  then show ?case by simp
next
  case (Cons e entries)
  let ?fs' = "fst (copySubfiles IO forceOverwrite originalFiles fs
                     (getFilesOf P IO fs root name e))"
  have step: "content ?fs' t = content fs t"
    using copySubfiles_content [where content = content and IO = IO and t = t
        and forceOverwrite = forceOverwrite and originalFiles = originalFiles and fs = fs]
      frame keep norec Cons.prems
    by blast
  with Cons.prems have "content ?fs' t \<noteq> None" by simp
  from Cons.IH [OF this] step show ?case
    by (simp add: Let_def split_beta)
qed

lemma copySubfiles_fs:
  "fst (copySubfiles IO forceOverwrite originalFiles fs subs) =
     foldl (\<lambda>f sub. copy IO f (sourcePath sub) (targetPath sub)
                       (if list_ex (\<lambda>m. path m = targetPath sub \<and> \<not> changed m) originalFiles
                        then yes else forceOverwrite))
       fs subs"
  by (induction subs arbitrary: fs) (simp_all add: Let_def split_beta)

text \<open>The outer loop, entry by entry: the pairs of an entry are resolved on the file
  system that the copies of the entries before it left, and copied onto it in order.\<close>

lemma copyPiralFiles_foldl:
  "foldl (\<lambda>(f, calls) entry.
            (foldl (\<lambda>f' sub. copy IO f' (sourcePath sub) (targetPath sub) (policy sub))
               f (getFilesOf P IO f root name entry),
             calls @ map (\<lambda>sub. \<lparr>copy_source = sourcePath sub, copy_target = targetPath sub,
                                   copy_force = policy sub\<rparr>)
                       (getFilesOf P IO f root name entry)))
     (fs, calls0) entries =
   (fst (copyPiralFiles P IO root name entries forceOverwrite originalFiles fs),
    calls0 @ snd (copyPiralFiles P IO root name entries forceOverwrite originalFiles fs))"
  if "policy = (\<lambda>sub. if list_ex (\<lambda>m. path m = targetPath sub \<and> \<not> changed m) originalFiles
                       then yes else forceOverwrite)"
  unfolding that
  by (induction entries arbitrary: fs calls0)
    (simp_all add: Let_def split_beta copySubfiles_fs copySubfiles_calls)

text \<open>
  C6. \<^verbatim>\<open>copyPiralFiles\<close> copies every pair that it resolves, entry by entry and pair by
  pair, each onto the file system as the copy before left it: with forced overwrite
  if the statistics hold a record of exactly the target path of the pair with
  \<^verbatim>\<open>changed: false\<close>, whatever the policy of the caller, and with the policy of the
  caller otherwise, that is when every record of the path says \<^verbatim>\<open>changed: true\<close> or
  there is none. So, for a \<^verbatim>\<open>copy\<close> that writes to its target only and leaves an
  existing target alone under the policy of the caller, a file that exists and has no
  record as unchanged has the content after the call that it had before.
\<close>

theorem copy_overwrite_policy:
  "(let policy = (\<lambda>target. if \<exists>m \<in> set originalFiles. path m = target \<and> \<not> changed m
                            then yes else forceOverwrite)
    in copyPiralFiles P IO root name entries forceOverwrite originalFiles fs =
         foldl (\<lambda>(f, calls) entry.
                  (foldl (\<lambda>f' sub. copy IO f' (sourcePath sub) (targetPath sub)
                                      (policy (targetPath sub)))
                     f (getFilesOf P IO f root name entry),
                   calls @ map (\<lambda>sub. \<lparr>copy_source = sourcePath sub,
                                         copy_target = targetPath sub,
                                         copy_force = policy (targetPath sub)\<rparr>)
                             (getFilesOf P IO f root name entry)))
           (fs, []) entries \<and>
       (\<forall>c \<in> set (snd (copyPiralFiles P IO root name entries forceOverwrite originalFiles fs)).
          copy_force c = policy (copy_target c)) \<and>
       ((\<forall>fs s t' f p. p \<noteq> t' \<longrightarrow> content (copy IO fs s t' f) p = content fs p) \<and>
        (\<forall>fs s. content fs t \<noteq> None \<longrightarrow>
           content (copy IO fs s t forceOverwrite) t = content fs t) \<and>
        content fs t \<noteq> None \<and>
        \<not> (\<exists>m \<in> set originalFiles. path m = t \<and> \<not> changed m) \<longrightarrow>
        content (fst (copyPiralFiles P IO root name entries forceOverwrite originalFiles fs)) t =
          content fs t))"
proof -
  have ex: "list_ex Q originalFiles = (\<exists>m \<in> set originalFiles. Q m)" for Q
    by (simp add: list_ex_iff)
  let ?policy = "\<lambda>target. if \<exists>m \<in> set originalFiles. path m = target \<and> \<not> changed m
                           then yes else forceOverwrite"
  have run: "copyPiralFiles P IO root name entries forceOverwrite originalFiles fs =
      foldl (\<lambda>(f, calls) entry.
               (foldl (\<lambda>f' sub. copy IO f' (sourcePath sub) (targetPath sub)
                                   (?policy (targetPath sub)))
                  f (getFilesOf P IO f root name entry),
                calls @ map (\<lambda>sub. \<lparr>copy_source = sourcePath sub,
                                      copy_target = targetPath sub,
                                      copy_force = ?policy (targetPath sub)\<rparr>)
                          (getFilesOf P IO f root name entry)))
        (fs, []) entries"
    using copyPiralFiles_foldl [of "\<lambda>sub. ?policy (targetPath sub)" originalFiles
        forceOverwrite IO P root name fs "[]" entries]
    by (simp add: ex)
  have force: "\<forall>c \<in> set (snd (copyPiralFiles P IO root name entries forceOverwrite
        originalFiles fs)). copy_force c = ?policy (copy_target c)"
    using copyPiralFiles_force [of P IO root name entries forceOverwrite originalFiles fs]
    unfolding ex .
  have kept: "content (fst (copyPiralFiles P IO root name entries forceOverwrite
        originalFiles fs)) t = content fs t"
    if "\<forall>fs s t' f p. p \<noteq> t' \<longrightarrow> content (copy IO fs s t' f) p = content fs p"
      and "\<forall>fs s. content fs t \<noteq> None \<longrightarrow>
             content (copy IO fs s t forceOverwrite) t = content fs t"
      and "content fs t \<noteq> None"
      and "\<not> (\<exists>m \<in> set originalFiles. path m = t \<and> \<not> changed m)"
    using copyPiralFiles_content [of content IO t forceOverwrite originalFiles fs P root name
        entries] that
    unfolding ex by blast
  show ?thesis
    unfolding Let_def using run force kept by blast
qed

text \<open>The witness, under the policy that preserves. The statistics are those of a pass
  over the tree before the host package was upgraded; the copies are made after it.
  \<^verbatim>\<open>/w/one.txt\<close> was edited and keeps its content; \<^verbatim>\<open>/w/out/a.txt\<close>, recorded as
  unchanged, is overwritten with the new template; \<^verbatim>\<open>/w/out/sub/b.txt\<close> was not there
  and is created.\<close>

theorem copy_overwrite_policy_witness:
  "getFileStats posix (tree_io []) example_tree ''/w'' ''app'' example_files = example_stats \<and>
   copyPiralFiles posix (tree_io []) ''/w'' ''app'' example_files no example_stats
     upgraded_tree =
     ([(''/w/node_modules/app/tpl/a.txt'', ''A2''),
       (''/w/node_modules/app/tpl/sub/b.txt'', ''B''),
       (''/w/node_modules/app/one.txt'', ''2''),
       (''/w/host/package.json'', ''{}''),
       (''/w/one.txt'', ''edited''),
       (''/w/out/a.txt'', ''A2''),
       (''/w/out/sub/b.txt'', ''B'')],
      [\<lparr>copy_source = ''/w/node_modules/app/one.txt'', copy_target = ''/w/one.txt'',
         copy_force = no\<rparr>,
       \<lparr>copy_source = ''/w/node_modules/app/tpl/a.txt'', copy_target = ''/w/out/a.txt'',
         copy_force = yes\<rparr>,
       \<lparr>copy_source = ''/w/node_modules/app/tpl/sub/b.txt'',
         copy_target = ''/w/out/sub/b.txt'', copy_force = no\<rparr>]) \<and>
   map_of (fst (copyPiralFiles posix (tree_io []) ''/w'' ''app'' example_files no example_stats
                  upgraded_tree)) ''/w/one.txt'' = Some ''edited''"
proof -
  have src: "join posix [getPiralPath posix ''/w'' ''app'', ''tpl''] = ''/w/node_modules/app/tpl''"
    "join posix [getPiralPath posix ''/w'' ''app'', ''one.txt''] =
       ''/w/node_modules/app/one.txt''"
    by (simp_all add: posix_def getPiralPath_def posix_resolve_def)
  have tgt: "resolve posix [''/w'', ''out''] = ''/w/out''"
    "resolve posix [''/w'', ''one.txt''] = ''/w/one.txt''"
    by (simp_all add: posix_def posix_resolve_def)
  have rel: "resolve posix [''/w/out'',
        relative posix ''/w/node_modules/app/tpl'' ''/w/node_modules/app/tpl/a.txt''] =
      ''/w/out/a.txt''"
    "resolve posix [''/w/out'',
        relative posix ''/w/node_modules/app/tpl'' ''/w/node_modules/app/tpl/sub/b.txt''] =
      ''/w/out/sub/b.txt''"
    by (simp_all add: posix_def posix_resolve_def posix_relative_def below_def)
  have one: "getFilesOf posix (tree_io []) fs ''/w'' ''app'' (FileName ''one.txt'') =
      [\<lparr>sourcePath = ''/w/node_modules/app/one.txt'', targetPath = ''/w/one.txt''\<rparr>]"
    if "\<not> tree_isDirectory fs ''/w/node_modules/app/one.txt''" for fs
    using that by (simp add: getFilesOf_def Let_def src tgt tree_io_def)
  have tpl: "getFilesOf posix (tree_io []) fs ''/w'' ''app''
      (FileLocation \<lparr>loc_from = ''tpl'', loc_to = ''out'', loc_deep = Some True\<rparr>) =
      [\<lparr>sourcePath = ''/w/node_modules/app/tpl/a.txt'', targetPath = ''/w/out/a.txt''\<rparr>,
       \<lparr>sourcePath = ''/w/node_modules/app/tpl/sub/b.txt'',
         targetPath = ''/w/out/sub/b.txt''\<rparr>]"
    if "tree_isDirectory fs ''/w/node_modules/app/tpl''"
      and "filter (below ''/w/node_modules/app/tpl'') (map fst fs) =
        [''/w/node_modules/app/tpl/a.txt'', ''/w/node_modules/app/tpl/sub/b.txt'']" for fs
    using that by (simp add: getFilesOf_def Let_def src tgt rel tree_io_def tree_matchFiles_def)
  have dir0: "\<not> tree_isDirectory example_tree ''/w/node_modules/app/one.txt''"
    "tree_isDirectory example_tree ''/w/node_modules/app/tpl''"
    "filter (below ''/w/node_modules/app/tpl'') (map fst example_tree) =
        [''/w/node_modules/app/tpl/a.txt'', ''/w/node_modules/app/tpl/sub/b.txt'']"
    by (simp_all add: tree_isDirectory_def example_tree_def below_def)
  have dir1: "\<not> tree_isDirectory upgraded_tree ''/w/node_modules/app/one.txt''"
    "tree_isDirectory upgraded_tree ''/w/node_modules/app/tpl''"
    "filter (below ''/w/node_modules/app/tpl'') (map fst upgraded_tree) =
        [''/w/node_modules/app/tpl/a.txt'', ''/w/node_modules/app/tpl/sub/b.txt'']"
    by (simp_all add: tree_isDirectory_def upgraded_tree_def below_def)
  have stats: "getFileStats posix (tree_io []) example_tree ''/w'' ''app'' example_files =
      example_stats"
    by (simp add: getFileStats_def example_files_def one [OF dir0(1)] tpl [OF dir0(2,3)]
        example_stats_def Let_def)
      (simp add: tree_io_def tree_getHash_def example_tree_def)
  have copy1: "copy (tree_io []) upgraded_tree ''/w/node_modules/app/one.txt'' ''/w/one.txt'' no =
      upgraded_tree"
    by (simp add: tree_io_def tree_copy_def upgraded_tree_def)
  have copy2: "copy (tree_io [])
      (copy (tree_io []) upgraded_tree ''/w/node_modules/app/tpl/a.txt'' ''/w/out/a.txt'' yes)
      ''/w/node_modules/app/tpl/sub/b.txt'' ''/w/out/sub/b.txt'' no =
      [(''/w/node_modules/app/tpl/a.txt'', ''A2''),
       (''/w/node_modules/app/tpl/sub/b.txt'', ''B''),
       (''/w/node_modules/app/one.txt'', ''2''),
       (''/w/host/package.json'', ''{}''),
       (''/w/one.txt'', ''edited''),
       (''/w/out/a.txt'', ''A2''),
       (''/w/out/sub/b.txt'', ''B'')]"
    by (simp add: tree_io_def tree_copy_def upgraded_tree_def)
  have pol: "(\<exists>m \<in> set example_stats. path m = ''/w/one.txt'' \<and> \<not> changed m) = False"
    "(\<exists>m \<in> set example_stats. path m = ''/w/out/a.txt'' \<and> \<not> changed m) = True"
    "(\<exists>m \<in> set example_stats. path m = ''/w/out/sub/b.txt'' \<and> \<not> changed m) = False"
    by (simp_all add: example_stats_def)
  have frame: "\<forall>fs s t' f p. p \<noteq> t' \<longrightarrow>
      map_of (copy (tree_io []) fs s t' f) p = map_of fs p"
    by (simp add: tree_io_def tree_copy_def update_conv' split: option.splits)
  have keep: "\<forall>fs s. map_of fs ''/w/one.txt'' \<noteq> None \<longrightarrow>
      map_of (copy (tree_io []) fs s ''/w/one.txt'' no) ''/w/one.txt'' =
        map_of fs ''/w/one.txt''"
    by (simp add: tree_io_def tree_copy_def split: option.splits)
  have there: "map_of upgraded_tree ''/w/one.txt'' = Some ''edited''"
    by (simp add: upgraded_tree_def)
  note run = copy_overwrite_policy [of example_stats no posix "tree_io []" "''/w''" "''app''"
      example_files upgraded_tree map_of "''/w/one.txt''", unfolded Let_def]
  from run have eq: "copyPiralFiles posix (tree_io []) ''/w'' ''app'' example_files no
      example_stats upgraded_tree =
      foldl (\<lambda>(f, calls) entry.
               (foldl (\<lambda>f' sub. copy (tree_io []) f' (sourcePath sub) (targetPath sub)
                   (if \<exists>m \<in> set example_stats. path m = targetPath sub \<and> \<not> changed m
                    then yes else no))
                  f (getFilesOf posix (tree_io []) f ''/w'' ''app'' entry),
                calls @ map (\<lambda>sub. \<lparr>copy_source = sourcePath sub,
                                      copy_target = targetPath sub,
                                      copy_force =
                   (if \<exists>m \<in> set example_stats. path m = targetPath sub \<and> \<not> changed m
                    then yes else no)\<rparr>)
                          (getFilesOf posix (tree_io []) f ''/w'' ''app'' entry)))
        (upgraded_tree, []) example_files"
    by (rule conjunct1)
  have result: "copyPiralFiles posix (tree_io []) ''/w'' ''app'' example_files no
      example_stats upgraded_tree =
     ([(''/w/node_modules/app/tpl/a.txt'', ''A2''),
       (''/w/node_modules/app/tpl/sub/b.txt'', ''B''),
       (''/w/node_modules/app/one.txt'', ''2''),
       (''/w/host/package.json'', ''{}''),
       (''/w/one.txt'', ''edited''),
       (''/w/out/a.txt'', ''A2''),
       (''/w/out/sub/b.txt'', ''B'')],
      [\<lparr>copy_source = ''/w/node_modules/app/one.txt'', copy_target = ''/w/one.txt'',
         copy_force = no\<rparr>,
       \<lparr>copy_source = ''/w/node_modules/app/tpl/a.txt'', copy_target = ''/w/out/a.txt'',
         copy_force = yes\<rparr>,
       \<lparr>copy_source = ''/w/node_modules/app/tpl/sub/b.txt'',
         copy_target = ''/w/out/sub/b.txt'', copy_force = no\<rparr>])"
    unfolding eq
    by (simp add: example_files_def one [OF dir1(1)] tpl [OF dir1(2,3)] pol copy1 copy2)
  from run frame keep there pol(1)
  have kept: "map_of (fst (copyPiralFiles posix (tree_io []) ''/w'' ''app'' example_files no
      example_stats upgraded_tree)) ''/w/one.txt'' = map_of upgraded_tree ''/w/one.txt''"
    by blast
  show ?thesis
    using stats result kept there by simp
qed

end
